theory Spec2Isabelle
  imports Main
begin

section \<open>Data model of the session-aware request broker\<close>

text \<open>
  The development embeds the part of \<^verbatim>\<open>server_rest_connection.cpp\<close> that
  detects an expired session, asks the credential source for one new token, resends the
  affected requests and reconciles JSON-RPC batches.  Names follow the C++ source.

  \<^item> \<^verbatim>\<open>rest::Handle\<close> is a natural number; \<^verbatim>\<open>Handle()\<close> is \<open>0\<close>.
  \<^item> \<^verbatim>\<open>nx::network::rest::ErrorId\<close> is declared outside this source tree; the
    members this file names are constructors, every other member is \<open>otherErrorId\<close>.
  \<^item> A JSON value is kept abstract: it either deserializes to a
    \<^verbatim>\<open>nx::network::rest::Result\<close> (\<open>ResultJson\<close>) or it does not.
\<close>

type_synonym Handle = nat

datatype ErrorId = ok | sessionExpired | sessionRequired | notImplemented | otherErrorId nat

record Result =
  errorId :: ErrorId
  errorString :: string

text \<open>A default-constructed \<^verbatim>\<open>Result\<close>: no error, empty text.\<close>

definition defaultResult :: Result where
  "defaultResult = \<lparr>errorId = ok, errorString = []\<rparr>"

definition Result_notImplemented :: Result where
  "Result_notImplemented = \<lparr>errorId = notImplemented, errorString = []\<rparr>"

datatype json_data = ResultJson Result | OtherJson string

fun deserializeResult :: "json_data \<Rightarrow> Result option" where
  "deserializeResult (ResultJson r) = Some r"
| "deserializeResult (OtherJson _) = None"

subsection \<open>JSON-RPC messages\<close>

text \<open>
  \<^verbatim>\<open>ResponseId = std::variant<QString, int, std::nullptr_t>\<close> and the optional request id
  share one encoding: \<open>Some (StringId s)\<close>, \<open>Some (NumericId n)\<close>, and \<open>None\<close> for
  \<^verbatim>\<open>nullptr\<close> (response) or an absent id (request).  Equality of two ids is equality of
  alternative and value.
\<close>

datatype JsonRpcId = StringId string | NumericId int

type_synonym JsonRpcRequestIdType = "JsonRpcId option"
type_synonym JsonRpcResponseIdType = "JsonRpcId option"

datatype JsonRpcErrorCode = applicationError | otherErrorCode int

record JsonRpcError =
  err_code :: JsonRpcErrorCode
  err_message :: string
  err_data :: "json_data option"

record JsonRpcResponse =
  resp_id :: JsonRpcResponseIdType
  resp_result :: "json_data option"
  resp_error :: "JsonRpcError option"

record JsonRpcRequest =
  req_id :: JsonRpcRequestIdType
  req_method :: string
  req_params :: "json_data option"

text \<open>\<^verbatim>\<open>using JsonRpcResultType = std::variant<Response, std::vector<Response>>\<close>\<close>

datatype JsonRpcResultType = Single JsonRpcResponse | Array "JsonRpcResponse list"

text \<open>\<^verbatim>\<open>rest::ErrorOrData<T>\<close>: \<open>Inl\<close> is the error, \<open>Inr\<close> the data.\<close>

type_synonym 'a ErrorOrData = "Result + 'a"

text \<open>
  \<^verbatim>\<open>nx::json_rpc::Response::makeError(id, code, message, data)\<close> (declared with the
  JSON-RPC messages): a response with the given id, no result, and an error object that
  carries the serialized \<^verbatim>\<open>data\<close>.
\<close>

definition makeError ::
  "JsonRpcResponseIdType \<Rightarrow> JsonRpcErrorCode \<Rightarrow> string \<Rightarrow> Result \<Rightarrow> JsonRpcResponse" where
  "makeError i c m d =
     \<lparr>resp_id = i, resp_result = None,
      resp_error = Some \<lparr>err_code = c, err_message = m, err_data = Some (ResultJson d)\<rparr>\<rparr>"

section \<open>Expiry classifier\<close>

text \<open>\<^verbatim>\<open>static bool isSessionExpiredError(nx::network::rest::ErrorId code)\<close>\<close>

definition isSessionExpiredError :: "ErrorId \<Rightarrow> bool" where
  "isSessionExpiredError c \<longleftrightarrow> c = sessionExpired \<or> c = sessionRequired"

text \<open>\<^verbatim>\<open>static bool isSessionExpiredError(const nx::json_rpc::Response& response)\<close>\<close>

definition isSessionExpiredResponse :: "JsonRpcResponse \<Rightarrow> bool" where
  "isSessionExpiredResponse response =
     (case resp_error response of
        None \<Rightarrow> False
      | Some e \<Rightarrow>
          (case err_data e of
             None \<Rightarrow> False
           | Some d \<Rightarrow>
               (case deserializeResult d of
                  None \<Rightarrow> False
                | Some r \<Rightarrow> isSessionExpiredError (errorId r))))"

subsection \<open>Batch reconciler\<close>

text \<open>The loop of \<^verbatim>\<open>extractJsonRpcExpired\<close> over the response array.\<close>

fun collectExpired ::
  "JsonRpcResponse list \<Rightarrow> JsonRpcRequestIdType set \<Rightarrow> JsonRpcRequestIdType set" where
  "collectExpired [] ids = ids"
| "collectExpired (response # rest) ids =
     collectExpired rest
       (if isSessionExpiredResponse response
        then (case resp_id response of
                Some (NumericId intId) \<Rightarrow> insert (Some (NumericId intId)) ids
              | Some (StringId strId) \<Rightarrow> insert (Some (StringId strId)) ids
              | None \<Rightarrow> ids)
        else ids)"

definition extractJsonRpcExpired ::
  "JsonRpcResultType ErrorOrData \<Rightarrow> JsonRpcRequestIdType set \<times> JsonRpcResponse list" where
  "extractJsonRpcExpired r =
     (case r of
        Inl _ \<Rightarrow> ({}, [])
      | Inr (Single _) \<Rightarrow> ({}, [])
      | Inr (Array responseArray) \<Rightarrow> (collectExpired responseArray {}, responseArray))"

text \<open>
  The id-to-response table of \<^verbatim>\<open>mergeJsonRpcResults\<close>.  \<^verbatim>\<open>unordered_map::insert\<close>
  keeps an existing entry, and a \<^verbatim>\<open>nullptr\<close> id is never entered.
\<close>

fun buildIdToResponse ::
  "JsonRpcResponse list \<Rightarrow> (JsonRpcResponseIdType \<rightharpoonup> JsonRpcResponse)
     \<Rightarrow> (JsonRpcResponseIdType \<rightharpoonup> JsonRpcResponse)" where
  "buildIdToResponse [] idToResponse = idToResponse"
| "buildIdToResponse (response # rest) idToResponse =
     buildIdToResponse rest
       (if resp_id response \<noteq> None \<and> idToResponse (resp_id response) = None
        then idToResponse(resp_id response \<mapsto> response)
        else idToResponse)"

text \<open>
  \<^verbatim>\<open>mergeJsonRpcResults\<close> returns its flag and the updated \<^verbatim>\<open>originalResponse\<close>.
  The variant has two alternatives only, so the final \<^verbatim>\<open>return false\<close> of the source
  is never reached.
\<close>

definition mergeJsonRpcResults ::
  "JsonRpcResponse list \<Rightarrow> JsonRpcResultType ErrorOrData \<Rightarrow> bool \<times> JsonRpcResponse list" where
  "mergeJsonRpcResults originalResponse r =
     (case r of
        Inl e \<Rightarrow>
          (True,
           map (\<lambda>response.
                  if isSessionExpiredResponse response
                  then makeError (resp_id response) applicationError (errorString e) e
                  else response)
               originalResponse)
      | Inr (Single e) \<Rightarrow>
          (True,
           map (\<lambda>response.
                  if isSessionExpiredResponse response
                  then response\<lparr>resp_result := None, resp_error := resp_error e\<rparr>
                  else response)
               originalResponse)
      | Inr (Array responseArray) \<Rightarrow>
          (let idToResponse = buildIdToResponse responseArray Map.empty
           in (True,
               map (\<lambda>response.
                      case idToResponse (resp_id response) of
                        Some replacement \<Rightarrow> replacement
                      | None \<Rightarrow> response)
                   originalResponse)))"

text \<open>
  The \<^verbatim>\<open>internalCallback\<close> of \<^verbatim>\<open>jsonRpcBatchCall\<close>: what the issuer's batch
  callback receives, or \<open>None\<close> where the lambda returns without calling it.
\<close>

definition internalCallback ::
  "bool \<Rightarrow> Handle \<Rightarrow> JsonRpcResultType ErrorOrData
     \<Rightarrow> (bool \<times> Handle \<times> JsonRpcResponse list) option" where
  "internalCallback success requestId r =
     (if success
      then (case r of
              Inr (Array responseArray) \<Rightarrow> Some (success, requestId, responseArray)
            | _ \<Rightarrow> None)
      else (case r of
              Inl e \<Rightarrow>
                Some (success, requestId, [makeError None applicationError (errorString e) e])
            | Inr (Single singleResponse) \<Rightarrow> Some (success, requestId, [singleResponse])
            | Inr (Array _) \<Rightarrow> None))"


subsection \<open>Results handed to a callback\<close>

text \<open>
  A message body (\<^verbatim>\<open>QByteArray\<close>) is kept as abstract as a JSON value: what the
  broker asks of it is whether \<^verbatim>\<open>QJson::deserialize\<close> reads a \<^verbatim>\<open>Result\<close> from it.
  The three instantiations of the callback template are the three constructors of
  \<open>api_result\<close>; \<^verbatim>\<open>if constexpr (std::is_same_v<ResultType, ...>)\<close> is a case
  distinction on the constructor.
\<close>

type_synonym QByteArray = json_data
type_synonym HttpHeaders = "(string \<times> string) list"

datatype api_result =
    Typed "string ErrorOrData"
  | Raw QByteArray HttpHeaders
  | JsonRpc "JsonRpcResultType ErrorOrData"

text \<open>
  \<^verbatim>\<open>getError\<close>: the template reads \<^verbatim>\<open>result.error().errorId\<close>; the overload for a
  raw body deserializes it and answers \<open>ok\<close> when that fails.  Reading the error of a
  result that holds data is outside the contract of the result type; the model answers
  \<open>ok\<close> there.
\<close>

fun getError :: "api_result \<Rightarrow> ErrorId" where
  "getError (Typed (Inl e)) = errorId e"
| "getError (Typed (Inr _)) = ok"
| "getError (JsonRpc (Inl e)) = errorId e"
| "getError (JsonRpc (Inr _)) = ok"
| "getError (Raw body _) =
     (case deserializeResult body of Some r \<Rightarrow> errorId r | None \<Rightarrow> ok)"

section \<open>Requests, credentials and the connection state\<close>

datatype AuthTokenType = none | password | ha1 | bearer

record AuthToken =
  token_value :: string
  token_type :: AuthTokenType

definition isBearerToken :: "AuthToken \<Rightarrow> bool" where
  "isBearerToken t \<longleftrightarrow> token_type t = bearer"

record Credentials =
  username :: string
  authToken :: AuthToken

record Url =
  url_scheme :: string
  url_host :: string
  url_port :: int
  url_path :: string
  url_query :: string

definition emptyUrl :: Url where
  "emptyUrl = \<lparr>url_scheme = [], url_host = [], url_port = -1, url_path = [], url_query = []\<rparr>"

text \<open>The body of an outgoing request: bytes, or a serialized list of JSON-RPC requests.\<close>

datatype RequestBody = Bytes string | SerializedRequests "JsonRpcRequest list"

record Request =
  rq_method :: string
  rq_url :: Url
  rq_headers :: HttpHeaders
  rq_credentials :: "Credentials option"
  rq_contentType :: string
  rq_messageBody :: RequestBody
  rq_gatewayId :: "string option"

text \<open>\<^verbatim>\<open>nx::network::http::ClientPool::Request()\<close>, the value returned for a request
  that cannot be prepared.\<close>

definition defaultRequest :: Request where
  "defaultRequest =
     \<lparr>rq_method = [], rq_url = emptyUrl, rq_headers = [], rq_credentials = None,
      rq_contentType = [], rq_messageBody = Bytes [], rq_gatewayId = None\<rparr>"

text \<open>
  Modelled from the spec: \<^verbatim>\<open>Request::isValid\<close> is declared with the client pool,
  outside this source tree.  A prepared request names a method and a target; the
  explicit unpreparable result names neither.
\<close>

definition isValid :: "Request \<Rightarrow> bool" where
  "isValid request \<longleftrightarrow> rq_method request \<noteq> [] \<and> rq_url request \<noteq> emptyUrl"

subsection \<open>The collaborators read by request preparation\<close>

record ServerResource =
  srv_apiUrl :: Url
  srv_id :: string
  srv_credentials :: Credentials
  srv_urlPort :: int

record Route =
  reverseConnect :: bool
  route_addr :: "(string \<times> int) option"
  route_gatewayId :: "string option"

record BusConnection =
  conn_address :: "string \<times> int"
  conn_credentials :: Credentials

text \<open>
  What \<^verbatim>\<open>setupAuth\<close> reads through the system context: the certificate verifier,
  the server resource with this connection's id, the route to it, the message bus
  connection, the resource of the current peer and the name of the user resource.
\<close>

record SystemContext =
  sc_certificateVerifier :: bool
  sc_server :: "ServerResource option"
  sc_route :: Route
  sc_messageBusConnection :: "BusConnection option"
  sc_currentServer :: "ServerResource option"
  sc_userName :: "string option"

record DirectConnect =
  dc_certificateVerifier :: bool
  dc_address :: "string \<times> int"
  dc_credentials :: Credentials

subsection \<open>The shared token object\<close>

record ReissuedToken =
  m_isSet :: bool
  m_value :: "AuthToken option"

definition newReissuedToken :: ReissuedToken where
  "newReissuedToken = \<lparr>m_isSet = False, m_value = None\<rparr>"

definition hasValue :: "ReissuedToken \<Rightarrow> bool" where
  "hasValue t = m_isSet t"

definition getValue :: "ReissuedToken \<Rightarrow> AuthToken option" where
  "getValue t = m_value t"

definition setValue :: "AuthToken option \<Rightarrow> ReissuedToken \<Rightarrow> ReissuedToken" where
  "setValue v t = t\<lparr>m_isSet := True, m_value := v\<rparr>"

subsection \<open>Closures\<close>

text \<open>
  \<^verbatim>\<open>InteractionContext\<close>: the record shared by the closures of one session-aware
  request.  \<open>ctx_reissuedToken\<close> is the address of the token object the request
  captured when its callback was made; \<open>ctx_callback\<close> is \<open>None\<close> for an empty
  function object.  Threads and timeouts are not modelled.
\<close>

record InteractionContext =
  ctx_helper :: nat
  ctx_reissuedToken :: nat
  ctx_request :: Request
  ctx_callback :: "nat option"
  expiredIds :: "JsonRpcRequestIdType set"
  originalResponse :: "JsonRpcResponse list"
  requestData :: "JsonRpcRequest list"

text \<open>\<^verbatim>\<open>ResendRequestFunc retry = [ctx, handle, success, result...](token) {...}\<close>\<close>

datatype ResendRequestFunc = Retry InteractionContext Handle bool api_result

text \<open>
  The completion closures the transport holds: the lambda returned by
  \<^verbatim>\<open>makeSessionAwareCallbackInternal\<close>, the \<^verbatim>\<open>fixedCallback\<close> of a resend with
  its original handle, or an issuer's own callback.
\<close>

datatype completion =
    SessionAwareCallback InteractionContext
  | FixedCallback InteractionContext Handle
  | PlainCallback "nat option"

datatype Delivery =
  Delivery (d_callback: nat) (d_success: bool) (d_handle: Handle) (d_result: api_result)

subsection \<open>\<^verbatim>\<open>ServerConnection::Private\<close>, the transport and the observations\<close>

text \<open>
  \<open>tokenHeap\<close> is the store of \<^verbatim>\<open>ReissuedToken\<close> objects reached through shared
  pointers, \<open>reissuedToken\<close> the pointer held by the connection.  \<open>alive\<close> is what the
  \<^verbatim>\<open>QPointer<ServerConnection>\<close> of a context tests.

  Modelled from the spec: the Transport Port (the HTTP client pool, outside this source
  tree) accepts a request with a completion, returns a handle no earlier call got, and
  completes or cancels a call by handle.  \<open>inflight\<close> holds the pending completions,
  \<open>sent\<close> and \<open>terminated\<close> log the calls made on the port.

  \<open>refreshCalls\<close> logs the calls of \<^verbatim>\<open>SessionTokenHelper::refreshToken\<close>,
  \<open>delivered\<close> the invocations of issuers' callbacks.
\<close>

record ServerConnection =
  systemContext :: "SystemContext option"
  auditId :: string
  userId :: "string option"
  localPeerIsClient :: bool
  threadLocale :: string
  appLocale :: string
  directConnect :: "DirectConnect option"
  storedRequests :: "ResendRequestFunc list"
  substitutions :: "Handle \<rightharpoonup> Handle"
  reissuedToken :: nat
  tokenHeap :: "nat \<Rightarrow> ReissuedToken"
  tokenCount :: nat
  alive :: bool
  nextHandle :: Handle
  inflight :: "Handle \<rightharpoonup> completion"
  sent :: "(Handle \<times> Request) list"
  terminated :: "Handle list"
  refreshCalls :: "nat list"
  delivered :: "Delivery list"


section \<open>Request preparer\<close>

definition EC2_RUNTIME_GUID_HEADER_NAME :: string where
  "EC2_RUNTIME_GUID_HEADER_NAME = ''X-runtime-guid''"

definition SERVER_GUID_HEADER_NAME :: string where
  "SERVER_GUID_HEADER_NAME = ''X-server-guid''"

definition CUSTOM_USERNAME_HEADER_NAME :: string where
  "CUSTOM_USERNAME_HEADER_NAME = ''X-Nx-User-Name''"

definition kAcceptLanguage :: string where
  "kAcceptLanguage = ''Accept-Language''"

definition kSecureUrlSchemeName :: string where
  "kSecureUrlSchemeName = ''https''"

text \<open>\<^verbatim>\<open>QString::toLower\<close>, on the ASCII letters.\<close>

definition toLower :: "string \<Rightarrow> string" where
  "toLower str =
     map (\<lambda>c. let n = (of_char c :: nat) in if 65 \<le> n \<and> n \<le> 90 then char_of (n + 32) else c) str"

definition setHost :: "string \<Rightarrow> Request \<Rightarrow> Request" where
  "setHost h request = request\<lparr>rq_url := (rq_url request)\<lparr>url_host := h\<rparr>\<rparr>"

definition setPort :: "int \<Rightarrow> Request \<Rightarrow> Request" where
  "setPort p request = request\<lparr>rq_url := (rq_url request)\<lparr>url_port := p\<rparr>\<rparr>"

definition emplaceHeader :: "string \<Rightarrow> string \<Rightarrow> Request \<Rightarrow> Request" where
  "emplaceHeader name v request = request\<lparr>rq_headers := rq_headers request @ [(name, v)]\<rparr>"

text \<open>\<^verbatim>\<open>void setupAuthDirect(request, auditId, address, credentials, path, query)\<close>\<close>

definition setupAuthDirect ::
  "Request \<Rightarrow> string \<Rightarrow> string \<times> int \<Rightarrow> Credentials \<Rightarrow> string \<Rightarrow> string \<Rightarrow> Request" where
  "setupAuthDirect request audit address credentials path query =
     emplaceHeader CUSTOM_USERNAME_HEADER_NAME (toLower (username credentials))
       (emplaceHeader EC2_RUNTIME_GUID_HEADER_NAME audit
          (request\<lparr>rq_url :=
                      \<lparr>url_scheme = kSecureUrlSchemeName, url_host = fst address,
                       url_port = snd address, url_path = path, url_query = query\<rparr>,
                    rq_credentials := Some credentials\<rparr>))"

text \<open>
  \<^verbatim>\<open>bool setupAuth(systemContext, auditId, serverId, request, url, userId)\<close>.
  The result is \<open>None\<close> where the source returns \<^verbatim>\<open>false\<close>: its only caller drops
  the partly filled request then.  The returns, in the order of the source: no system
  context; no server resource; a reverse route on a client without a message bus
  connection; no message bus connection.
\<close>

definition setupAuth ::
  "SystemContext option \<Rightarrow> bool \<Rightarrow> string \<Rightarrow> Request \<Rightarrow> Url \<Rightarrow> string option
     \<Rightarrow> Request option" where
  "setupAuth context isClient audit request url user =
     (case context of
        None \<Rightarrow> None
      | Some sc \<Rightarrow>
          (case sc_server sc of
             None \<Rightarrow> None
           | Some server \<Rightarrow>
               (let r1 = emplaceHeader EC2_RUNTIME_GUID_HEADER_NAME audit
                           (request\<lparr>rq_url := (srv_apiUrl server)
                                       \<lparr>url_path := url_path url, url_query := url_query url\<rparr>\<rparr>);
                    route = sc_route sc
                in if reverseConnect route \<and> isClient \<and> sc_messageBusConnection sc = None
                   then None
                   else
                     (let r2 =
                        (if reverseConnect route
                         then (if isClient
                               then (case sc_messageBusConnection sc of
                                       None \<Rightarrow> r1
                                     | Some connection \<Rightarrow>
                                         (let r = setHost (fst (conn_address connection)) r1
                                          in if snd (conn_address connection) \<noteq> 65535
                                             then setPort (snd (conn_address connection)) r
                                             else r))
                               else (let r = setHost ''127.0.0.1'' r1
                                     in case sc_currentServer sc of
                                          None \<Rightarrow> r
                                        | Some currentServer \<Rightarrow>
                                            if srv_urlPort currentServer > 0
                                            then setPort (srv_urlPort currentServer) r
                                            else r))
                         else (case route_addr route of
                                 None \<Rightarrow> r1
                               | Some a \<Rightarrow> setPort (snd a) (setHost (fst a) r1)))
                      in case sc_messageBusConnection sc of
                           None \<Rightarrow> None
                         | Some connection \<Rightarrow>
                             (let credentials =
                                    (if isClient then conn_credentials connection
                                     else srv_credentials server);
                                  r3 = (emplaceHeader SERVER_GUID_HEADER_NAME (srv_id server) r2)
                                         \<lparr>rq_credentials := Some credentials\<rparr>;
                                  userName =
                                    (case user of
                                       Some _ \<Rightarrow> (case sc_userName sc of Some n \<Rightarrow> n | None \<Rightarrow> [])
                                     | None \<Rightarrow> username credentials);
                                  r4 = (if userName \<noteq> []
                                        then emplaceHeader CUSTOM_USERNAME_HEADER_NAME
                                               (toLower userName) r3
                                        else r3)
                              in Some (case route_gatewayId route of
                                         None \<Rightarrow> r4
                                       | Some g \<Rightarrow> r4\<lparr>rq_gatewayId := Some g\<rparr>))))))"

text \<open>\<^verbatim>\<open>ServerConnection::prepareRequest(method, url, contentType, messageBody)\<close>\<close>

definition prepareRequest ::
  "string \<Rightarrow> Url \<Rightarrow> string \<Rightarrow> RequestBody \<Rightarrow> ServerConnection \<Rightarrow> Request" where
  "prepareRequest method url contentType messageBody d =
     (let authorized =
            (case directConnect d of
               Some dc \<Rightarrow>
                 Some (setupAuthDirect defaultRequest (auditId d) (dc_address dc)
                         (dc_credentials dc) (url_path url) (url_query url))
             | None \<Rightarrow>
                 setupAuth (systemContext d) (localPeerIsClient d) (auditId d) defaultRequest url
                   (userId d))
      in case authorized of
           None \<Rightarrow> defaultRequest
         | Some request \<Rightarrow>
             emplaceHeader kAcceptLanguage
               (if threadLocale d = [] then appLocale d else threadLocale d)
               (request\<lparr>rq_method := method, rq_contentType := contentType,
                        rq_messageBody := messageBody\<rparr>))"

section \<open>Dispatch, cancellation and credentials\<close>

text \<open>
  The certificate verifier \<^verbatim>\<open>sendRequest\<close> asks for: the one of the direct connection
  if there is one, else the one of the system context.
\<close>

definition certificateVerifier :: "ServerConnection \<Rightarrow> bool" where
  "certificateVerifier d =
     (case directConnect d of
        Some dc \<Rightarrow> dc_certificateVerifier dc
      | None \<Rightarrow> (case systemContext d of Some sc \<Rightarrow> sc_certificateVerifier sc | None \<Rightarrow> False))"

text \<open>
  \<^verbatim>\<open>executeRequest\<close> wraps the callback in a reply handler and calls
  \<^verbatim>\<open>sendRequest\<close>, which returns \<open>0\<close> without a verifier and otherwise hands the
  call to the client pool.  The pool's answer is the Transport Port of the spec: a fresh
  handle, the completion pending.
\<close>

definition executeRequest ::
  "Request \<Rightarrow> completion \<Rightarrow> ServerConnection \<Rightarrow> Handle \<times> ServerConnection" where
  "executeRequest request callback d =
     (if \<not> certificateVerifier d then (0, d)
      else (nextHandle d,
            d\<lparr>nextHandle := Suc (nextHandle d),
              inflight := (inflight d)(nextHandle d \<mapsto> callback),
              sent := sent d @ [(nextHandle d, request)]\<rparr>))"

text \<open>\<^verbatim>\<open>httpClientPool->terminate(handle)\<close>: the call is dropped, no completion follows.\<close>

definition terminate :: "Handle \<Rightarrow> ServerConnection \<Rightarrow> ServerConnection" where
  "terminate h d = d\<lparr>inflight := (inflight d)(h := None), terminated := terminated d @ [h]\<rparr>"

text \<open>\<^verbatim>\<open>void ServerConnection::cancelRequest(const Handle& requestId)\<close>\<close>

definition cancelRequest :: "Handle \<Rightarrow> ServerConnection \<Rightarrow> ServerConnection" where
  "cancelRequest requestId d =
     (case substitutions d requestId of
        Some actualId \<Rightarrow> terminate actualId d
      | None \<Rightarrow> terminate requestId d)"

text \<open>
  \<^verbatim>\<open>void ServerConnection::updateCredentials(Credentials credentials)\<close>; the assertion
  on \<^verbatim>\<open>d->directConnect\<close> yields its condition.
\<close>

definition updateCredentials :: "Credentials \<Rightarrow> ServerConnection \<Rightarrow> ServerConnection" where
  "updateCredentials credentials d =
     (case directConnect d of
        None \<Rightarrow> d
      | Some dc \<Rightarrow>
          if isBearerToken (authToken credentials)
          then d\<lparr>directConnect := Some (dc\<lparr>dc_credentials := credentials\<rparr>)\<rparr>
          else d)"


section \<open>Session-aware callbacks\<close>

text \<open>Invoking \<^verbatim>\<open>ctx->callback\<close> behind its \<^verbatim>\<open>if (ctx->callback)\<close> test.\<close>

definition invocation :: "nat option \<Rightarrow> bool \<Rightarrow> Handle \<Rightarrow> api_result \<Rightarrow> Delivery list" where
  "invocation callback success handle r =
     (case callback of None \<Rightarrow> [] | Some cb \<Rightarrow> [Delivery cb success handle r])"

definition deliver ::
  "nat option \<Rightarrow> bool \<Rightarrow> Handle \<Rightarrow> api_result \<Rightarrow> ServerConnection \<Rightarrow> ServerConnection" where
  "deliver callback success handle r d =
     d\<lparr>delivered := delivered d @ invocation callback success handle r\<rparr>"

text \<open>
  \<^verbatim>\<open>makeSessionAwareCallbackInternal\<close>: the context captures the token object the
  connection points to when the callback is made.
\<close>

definition makeSessionAwareCallbackInternal ::
  "nat \<Rightarrow> Request \<Rightarrow> nat option \<Rightarrow> JsonRpcRequest list \<Rightarrow> ServerConnection \<Rightarrow> completion" where
  "makeSessionAwareCallbackInternal helper request callback args d =
     SessionAwareCallback
       \<lparr>ctx_helper = helper, ctx_reissuedToken = reissuedToken d, ctx_request = request,
        ctx_callback = callback, expiredIds = {}, originalResponse = [], requestData = args\<rparr>"

text \<open>
  The head of the returned lambda: it fills the batch fields of the context and decides
  \<^verbatim>\<open>requestNewSession\<close>.
\<close>

definition requestNewSession :: "bool \<Rightarrow> api_result \<Rightarrow> bool" where
  "requestNewSession success r =
     (if success
      then (case r of
              JsonRpc j \<Rightarrow> fst (extractJsonRpcExpired j) \<noteq> {}
            | _ \<Rightarrow> False)
      else (let e = getError r in if e \<noteq> ok then isSessionExpiredError e else False))"

definition updateContext :: "InteractionContext \<Rightarrow> bool \<Rightarrow> api_result \<Rightarrow> InteractionContext" where
  "updateContext ctx success r =
     (if success
      then (case r of
              JsonRpc j \<Rightarrow>
                ctx\<lparr>expiredIds := fst (extractJsonRpcExpired j),
                    originalResponse := snd (extractJsonRpcExpired j)\<rparr>
            | _ \<Rightarrow> ctx)
      else ctx)"

text \<open>
  The \<^verbatim>\<open>fixedCallback\<close> of a resend.  The closure posted to the interaction thread
  erases the substitution; the issuer's callback gets \<^verbatim>\<open>originalHandle\<close>.
\<close>

definition fixedCallback ::
  "InteractionContext \<Rightarrow> Handle \<Rightarrow> bool \<Rightarrow> Handle \<Rightarrow> api_result
     \<Rightarrow> ServerConnection \<Rightarrow> ServerConnection" where
  "fixedCallback ctx originalHandle success handle r d =
     (if \<not> alive d then d
      else
        (let d1 = d\<lparr>substitutions := (substitutions d)(originalHandle := None)\<rparr>
         in case r of
              JsonRpc j \<Rightarrow>
                (if ctx_callback ctx \<noteq> None
                      \<and> fst (mergeJsonRpcResults (originalResponse ctx) j)
                 then deliver (ctx_callback ctx) True originalHandle
                        (JsonRpc (Inr (Array (snd (mergeJsonRpcResults (originalResponse ctx) j)))))
                        d1
                 else deliver (ctx_callback ctx) success originalHandle r d1)
            | _ \<Rightarrow> deliver (ctx_callback ctx) success originalHandle r d1))"

text \<open>
  The request a retry sends: the stored request with the new token in its credentials
  and, for a batch, the body of the expired requests only.  Writing through
  \<^verbatim>\<open>fixedRequest.credentials\<close> presupposes credentials; a request without them is
  left as it is.
\<close>

definition fixedRequest :: "InteractionContext \<Rightarrow> api_result \<Rightarrow> AuthToken \<Rightarrow> Request" where
  "fixedRequest ctx r t =
     (let patched =
            (ctx_request ctx)
              \<lparr>rq_credentials :=
                 map_option (\<lambda>c. c\<lparr>authToken := t\<rparr>) (rq_credentials (ctx_request ctx))\<rparr>
      in case r of
           JsonRpc _ \<Rightarrow>
             patched
               \<lparr>rq_messageBody :=
                  SerializedRequests
                    (filter (\<lambda>request. req_id request \<in> expiredIds ctx) (requestData ctx))\<rparr>
         | _ \<Rightarrow> patched)"

text \<open>
  \<^verbatim>\<open>retry(token)\<close>.  Without a token the original callback gets the original
  response.  With one, the fixed request is sent with the \<^verbatim>\<open>fixedCallback\<close> and the
  substitution of the original handle is stored.
\<close>

fun retry :: "ResendRequestFunc \<Rightarrow> AuthToken option \<Rightarrow> ServerConnection \<Rightarrow> ServerConnection" where
  "retry (Retry ctx handle success r) token d =
     (if \<not> alive d then d
      else
        (case token of
           None \<Rightarrow> deliver (ctx_callback ctx) success handle r d
         | Some t \<Rightarrow>
             (let sending = executeRequest (fixedRequest ctx r t) (FixedCallback ctx handle) d
              in (snd sending)
                   \<lparr>substitutions := (substitutions (snd sending))(handle \<mapsto> fst sending)\<rparr>)))"

lemma storedRequests_deliver [simp]:
  "storedRequests (deliver cb success h r d) = storedRequests d"
  by (simp add: deliver_def)

lemma storedRequests_executeRequest [simp]:
  "storedRequests (snd (executeRequest request c d)) = storedRequests d"
  by (simp add: executeRequest_def)

lemma storedRequests_retry [simp]:
  "storedRequests (retry f token d) = storedRequests d"
  by (cases f) (simp add: Let_def split: option.splits api_result.splits)

text \<open>
  \<^verbatim>\<open>while (!storedRequests.empty()) { retry = front(); pop_front(); retry(token); }\<close>
\<close>

function drain :: "AuthToken option \<Rightarrow> ServerConnection \<Rightarrow> ServerConnection" where
  "drain token d =
     (case storedRequests d of
        [] \<Rightarrow> d
      | f # rest \<Rightarrow> drain token (retry f token (d\<lparr>storedRequests := rest\<rparr>)))"
  by pat_completeness auto
termination
  by (relation "measure (\<lambda>(token, d). length (storedRequests d))") auto

declare retry.simps [simp del] drain.simps [simp del]

text \<open>
  The closure run on the interaction thread for a failed request, in parts.
  \<open>isFirstFailedRequest\<close> is the test of its first branch; \<open>beforeRefresh\<close> stores
  the retry function and enters \<^verbatim>\<open>ctx->helper->refreshToken()\<close>; \<open>afterRefresh\<close> is
  what follows the return of that call: unless the connection is gone, \<open>installToken\<close>
  (the value is set in the token object of the context, the connection gets a new token
  object, a direct connection gets the new token in its credentials) and the loop over
  the stored requests.  \<open>laterFailedRequest\<close> is the two other branches.
\<close>

definition isFirstFailedRequest :: "InteractionContext \<Rightarrow> ServerConnection \<Rightarrow> bool" where
  "isFirstFailedRequest ctx d \<longleftrightarrow>
     storedRequests d = [] \<and> \<not> hasValue (tokenHeap d (ctx_reissuedToken ctx))"

definition beforeRefresh ::
  "InteractionContext \<Rightarrow> ResendRequestFunc \<Rightarrow> ServerConnection \<Rightarrow> ServerConnection" where
  "beforeRefresh ctx f d =
     d\<lparr>storedRequests := storedRequests d @ [f],
       refreshCalls := refreshCalls d @ [ctx_helper ctx]\<rparr>"

definition installToken ::
  "InteractionContext \<Rightarrow> AuthToken option \<Rightarrow> ServerConnection \<Rightarrow> ServerConnection" where
  "installToken ctx token d =
     (let d1 = d\<lparr>tokenHeap :=
                   (tokenHeap d)
                     (ctx_reissuedToken ctx :=
                        setValue token (tokenHeap d (ctx_reissuedToken ctx)))\<rparr>
      in d1\<lparr>tokenHeap := (tokenHeap d1)(tokenCount d1 := newReissuedToken),
            reissuedToken := tokenCount d1,
            tokenCount := Suc (tokenCount d1),
            directConnect :=
              (case token of
                 None \<Rightarrow> directConnect d1
               | Some t \<Rightarrow>
                   map_option
                     (\<lambda>dc. dc\<lparr>dc_credentials := (dc_credentials dc)\<lparr>authToken := t\<rparr>\<rparr>)
                     (directConnect d1))\<rparr>)"

definition afterRefresh ::
  "InteractionContext \<Rightarrow> AuthToken option \<Rightarrow> ServerConnection \<Rightarrow> ServerConnection" where
  "afterRefresh ctx token d =
     (if \<not> alive d then d else drain token (installToken ctx token d))"

definition laterFailedRequest ::
  "InteractionContext \<Rightarrow> ResendRequestFunc \<Rightarrow> ServerConnection \<Rightarrow> ServerConnection" where
  "laterFailedRequest ctx f d =
     (if hasValue (tokenHeap d (ctx_reissuedToken ctx))
      then retry f (getValue (tokenHeap d (ctx_reissuedToken ctx))) d
      else d\<lparr>storedRequests := storedRequests d @ [f]\<rparr>)"

section \<open>Events on the interaction thread\<close>

text \<open>
  All broker state is read and written by closures that run one at a time; a run of the
  broker is the list of these events.

  \<^item> \<open>EvReply h success r nested token\<close>: the transport completes call \<open>h\<close> and the
    reply handler invokes the stored callback with \<open>(success, h, r)\<close>.  Should this
    callback call \<^verbatim>\<open>refreshToken\<close>, then \<open>nested\<close> are the events that run inside
    that call (it may open a modal dialog with an event loop of its own) and \<open>token\<close>
    is what it returns.
  \<^item> \<open>EvSendRequest helper method url body callback\<close>: the template
    \<^verbatim>\<open>sendRequest\<close> with an optional token helper.
  \<^item> \<open>EvJsonRpcBatchCall helper requests callback\<close>.
  \<^item> \<open>EvCancelRequest\<close>, \<open>EvUpdateCredentials\<close>, and \<open>EvDestroyed\<close>, after which the
    guarded closures find no connection.
\<close>

datatype event =
    EvReply Handle bool api_result "event list" "AuthToken option"
  | EvSendRequest "nat option" string Url RequestBody "nat option"
  | EvJsonRpcBatchCall nat "JsonRpcRequest list" nat
  | EvCancelRequest Handle
  | EvUpdateCredentials Credentials
  | EvDestroyed

definition kJsonContentType :: string where
  "kJsonContentType = ''application/json''"

definition kJsonRpcPath :: string where
  "kJsonRpcPath = ''/jsonrpc''"

text \<open>
  \<^verbatim>\<open>ServerConnection::sendRequest(helper, method, action, params, body, callback, ...)\<close>;
  \<open>url\<close> is \<^verbatim>\<open>prepareUrl(action, params)\<close>.
\<close>

definition sendRequest ::
  "nat option \<Rightarrow> string \<Rightarrow> Url \<Rightarrow> RequestBody \<Rightarrow> nat option \<Rightarrow> ServerConnection
     \<Rightarrow> Handle \<times> ServerConnection" where
  "sendRequest helper method url body callback d =
     (let request = prepareRequest method url kJsonContentType body d;
          wrapper =
            (case helper of
               Some h \<Rightarrow> makeSessionAwareCallbackInternal h request callback [] d
             | None \<Rightarrow> PlainCallback callback)
      in if isValid request then executeRequest request wrapper d else (0, d))"

text \<open>
  \<^verbatim>\<open>ServerConnection::jsonRpcBatchCall(tokenHelper, requests, callback, ...)\<close>.
  The callback of the context is the \<^verbatim>\<open>internalCallback\<close> lambda around the issuer's
  batch callback: \<open>delivered\<close> records the invocation of the lambda, and
  \<open>internalCallback\<close> says what the issuer receives from it.
\<close>

definition jsonRpcBatchCall ::
  "nat \<Rightarrow> JsonRpcRequest list \<Rightarrow> nat \<Rightarrow> ServerConnection \<Rightarrow> Handle \<times> ServerConnection" where
  "jsonRpcBatchCall tokenHelper requests callback d =
     (let request =
            prepareRequest ''POST''
              (emptyUrl\<lparr>url_path := kJsonRpcPath\<rparr>) kJsonContentType (SerializedRequests requests) d;
          wrapper = makeSessionAwareCallbackInternal tokenHelper request (Some callback) requests d
      in if isValid request then executeRequest request wrapper d else (0, d))"

fun step :: "event \<Rightarrow> ServerConnection \<Rightarrow> ServerConnection"
  and run :: "event list \<Rightarrow> ServerConnection \<Rightarrow> ServerConnection" where
  "step (EvReply h success r nested token) d =
     (case inflight d h of
        None \<Rightarrow> d
      | Some c \<Rightarrow>
          (if \<not> alive d then d\<lparr>inflight := (inflight d)(h := None)\<rparr>
           else
             (case c of
                PlainCallback cb \<Rightarrow>
                  deliver cb success h r (d\<lparr>inflight := (inflight d)(h := None)\<rparr>)
              | FixedCallback ctx originalHandle \<Rightarrow>
                  fixedCallback ctx originalHandle success h r
                    (d\<lparr>inflight := (inflight d)(h := None)\<rparr>)
              | SessionAwareCallback ctx \<Rightarrow>
                  (if requestNewSession success r
                   then
                     (if isFirstFailedRequest (updateContext ctx success r)
                           (d\<lparr>inflight := (inflight d)(h := None)\<rparr>)
                      then afterRefresh (updateContext ctx success r) token
                             (run nested
                                (beforeRefresh (updateContext ctx success r)
                                   (Retry (updateContext ctx success r) h success r)
                                   (d\<lparr>inflight := (inflight d)(h := None)\<rparr>)))
                      else laterFailedRequest (updateContext ctx success r)
                             (Retry (updateContext ctx success r) h success r)
                             (d\<lparr>inflight := (inflight d)(h := None)\<rparr>))
                   else deliver (ctx_callback ctx) success h r
                          (d\<lparr>inflight := (inflight d)(h := None)\<rparr>)))))"
| "step (EvSendRequest helper method url body callback) d =
     snd (sendRequest helper method url body callback d)"
| "step (EvJsonRpcBatchCall tokenHelper requests callback) d =
     snd (jsonRpcBatchCall tokenHelper requests callback d)"
| "step (EvCancelRequest requestId) d = cancelRequest requestId d"
| "step (EvUpdateCredentials credentials) d = updateCredentials credentials d"
| "step EvDestroyed d = d\<lparr>alive := False\<rparr>"
| "run [] d = d"
| "run (e # es) d = run es (step e d)"


section \<open>Reply handling for typed results\<close>

text \<open>
  The reply handler of \<^verbatim>\<open>executeRequest\<close> computes \<open>(success, result)\<close> from the
  reply before it invokes the callback.  Two helpers are declared outside this source
  tree and are parameters here: \<open>parseRestResult\<close>
  (\<^verbatim>\<open>nx::vms::common::api::parseRestResult(statusCode, format, body)\<close>) and
  \<open>deserialize\<close> (\<^verbatim>\<open>nx::reflect::json::deserialize\<close> into the data type of the
  call; for the data types \<^verbatim>\<open>Empty\<close> and \<^verbatim>\<open>QByteArray\<close> the source skips it, which is
  a \<open>deserialize\<close> that always succeeds).
\<close>

datatype SerializationFormat = json | ubjson | unsupported

record ReplyContext =
  statusCode :: nat
  systemError :: nat
  replyFormat :: SerializationFormat
  replyBody :: QByteArray

text \<open>
  \<^verbatim>\<open>template<> Result parseMessageBody(Type<Result>, format, messageBody, statusLine, success)\<close>:
  \<^verbatim>\<open>*success\<close> is computed from the parsed result and the function ends in
  \<^verbatim>\<open>return {};\<close>.
\<close>

definition parseMessageBody_Result ::
  "(nat \<Rightarrow> SerializationFormat \<Rightarrow> QByteArray \<Rightarrow> Result) \<Rightarrow> SerializationFormat \<Rightarrow> QByteArray
     \<Rightarrow> nat \<Rightarrow> Result \<times> bool" where
  "parseMessageBody_Result parseRestResult format messageBody status =
     (let parsed = parseRestResult status format messageBody
      in (defaultResult, errorId parsed = ok))"

text \<open>\<^verbatim>\<open>template<typename T> ErrorOrData<T> parseMessageBody(Type<ErrorOrData<T>>, ...)\<close>\<close>

definition parseMessageBody_ErrorOrData ::
  "(QByteArray \<Rightarrow> 'a option) \<Rightarrow> (nat \<Rightarrow> SerializationFormat \<Rightarrow> QByteArray \<Rightarrow> Result)
     \<Rightarrow> SerializationFormat \<Rightarrow> QByteArray \<Rightarrow> nat \<Rightarrow> 'a ErrorOrData \<times> bool" where
  "parseMessageBody_ErrorOrData deserialize parseRestResult format messageBody status =
     (if status = 200
      then (case deserialize messageBody of
              Some parsed \<Rightarrow> (Inr parsed, True)
            | None \<Rightarrow> (Inl Result_notImplemented, False))
      else (Inl (fst (parseMessageBody_Result parseRestResult format messageBody status)),
            snd (parseMessageBody_Result parseRestResult format messageBody status)))"

text \<open>
  The reply handler of the template \<^verbatim>\<open>executeRequest\<close> for a result type
  \<^verbatim>\<open>ErrorOrData<T>\<close>; \<open>emptyType\<close> says that the result type is \<^verbatim>\<open>ErrorOrEmpty\<close>.
\<close>

definition replyHandler ::
  "bool \<Rightarrow> (QByteArray \<Rightarrow> string option) \<Rightarrow> (nat \<Rightarrow> SerializationFormat \<Rightarrow> QByteArray \<Rightarrow> Result)
     \<Rightarrow> ReplyContext \<Rightarrow> bool \<times> api_result" where
  "replyHandler emptyType deserialize parseRestResult reply =
     (let parsed = parseMessageBody_ErrorOrData deserialize parseRestResult
                     (replyFormat reply) (replyBody reply) (statusCode reply);
          success =
            (if emptyType
             then (if systemError reply \<noteq> 0 \<or> statusCode reply < 200 \<or> statusCode reply > 206
                   then False else snd parsed)
             else (if systemError reply \<noteq> 0 \<or> statusCode reply \<noteq> 200
                   then False else snd parsed))
      in (success, Typed (fst parsed)))"

section \<open>Construction\<close>

text \<open>
  The two constructors of \<^verbatim>\<open>ServerConnection\<close>: through a system context, and the
  direct connection with a verifier, an address and credentials.  The application
  context (peer type, locales) and the first free handle of the transport are
  parameters.
\<close>

definition newConnection ::
  "SystemContext \<Rightarrow> string \<Rightarrow> bool \<Rightarrow> string \<Rightarrow> Handle \<Rightarrow> ServerConnection" where
  "newConnection sc audit isClient locale h =
     \<lparr>systemContext = Some sc, auditId = audit, userId = None, localPeerIsClient = isClient,
      threadLocale = [], appLocale = locale, directConnect = None, storedRequests = [],
      substitutions = Map.empty, reissuedToken = 0, tokenHeap = (\<lambda>_. newReissuedToken),
      tokenCount = 1, alive = True, nextHandle = h, inflight = Map.empty, sent = [],
      terminated = [], refreshCalls = [], delivered = []\<rparr>"

definition newDirectConnection ::
  "string \<Rightarrow> bool \<Rightarrow> string \<times> int \<Rightarrow> Credentials \<Rightarrow> bool \<Rightarrow> string \<Rightarrow> Handle
     \<Rightarrow> ServerConnection" where
  "newDirectConnection audit verifier address credentials isClient locale h =
     \<lparr>systemContext = None, auditId = audit, userId = None, localPeerIsClient = isClient,
      threadLocale = [], appLocale = locale,
      directConnect =
        Some \<lparr>dc_certificateVerifier = verifier, dc_address = address,
              dc_credentials = credentials\<rparr>,
      storedRequests = [], substitutions = Map.empty, reissuedToken = 0,
      tokenHeap = (\<lambda>_. newReissuedToken), tokenCount = 1, alive = True, nextHandle = h,
      inflight = Map.empty, sent = [], terminated = [], refreshCalls = [], delivered = []\<rparr>"


section \<open>Vocabulary of the statements\<close>

text \<open>
  A reply that is about to arrive for a session-aware request: the handle, the context of
  its callback, the outcome the reply handler reports, and what \<^verbatim>\<open>refreshToken\<close>
  would do were this reply the one to call it.
\<close>

record PendingReply =
  p_handle :: Handle
  p_ctx :: InteractionContext
  p_success :: bool
  p_result :: api_result
  p_nested :: "event list"
  p_token :: "AuthToken option"

definition replyEvent :: "PendingReply \<Rightarrow> event" where
  "replyEvent p = EvReply (p_handle p) (p_success p) (p_result p) (p_nested p) (p_token p)"

text \<open>The retry function the interaction closure builds for a reply.\<close>

definition retryOf :: "PendingReply \<Rightarrow> ResendRequestFunc" where
  "retryOf p =
     Retry (updateContext (p_ctx p) (p_success p) (p_result p)) (p_handle p) (p_success p)
       (p_result p)"

text \<open>
  \<open>expires d p\<close>: in state \<open>d\<close> the request of \<open>p\<close> is in flight with its session-aware
  callback, its reply classifies as session-expired, and the token object its context
  captured has not been set.
\<close>

definition expires :: "ServerConnection \<Rightarrow> PendingReply \<Rightarrow> bool" where
  "expires d p \<longleftrightarrow>
     inflight d (p_handle p) = Some (SessionAwareCallback (p_ctx p))
     \<and> requestNewSession (p_success p) (p_result p)
     \<and> \<not> hasValue (tokenHeap d (ctx_reissuedToken (p_ctx p)))"

text \<open>What the issuer of \<open>p\<close> is called with when its original response is passed on.\<close>

definition originalInvocation :: "PendingReply \<Rightarrow> Delivery list" where
  "originalInvocation p =
     invocation (ctx_callback (p_ctx p)) (p_success p) (p_handle p) (p_result p)"

text \<open>The transport has nothing in flight under a handle it has not issued yet.\<close>

definition freshHandles :: "ServerConnection \<Rightarrow> bool" where
  "freshHandles d \<longleftrightarrow> (\<forall>k. nextHandle d \<le> k \<longrightarrow> inflight d k = None)"


text \<open>What the issuer is called with when the resend of its request completes.\<close>

definition resendInvocation ::
  "InteractionContext \<Rightarrow> Handle \<Rightarrow> bool \<Rightarrow> api_result \<Rightarrow> Delivery list" where
  "resendInvocation ctx originalHandle success r =
     (case r of
        JsonRpc j \<Rightarrow>
          (if ctx_callback ctx \<noteq> None \<and> fst (mergeJsonRpcResults (originalResponse ctx) j)
           then invocation (ctx_callback ctx) True originalHandle
                  (JsonRpc (Inr (Array (snd (mergeJsonRpcResults (originalResponse ctx) j)))))
           else invocation (ctx_callback ctx) success originalHandle r)
      | _ \<Rightarrow> invocation (ctx_callback ctx) success originalHandle r)"

text \<open>The completion a retry function hands to the transport with its resend.\<close>

fun fixedOf :: "ResendRequestFunc \<Rightarrow> completion" where
  "fixedOf (Retry ctx h success r) = FixedCallback ctx h"

text \<open>
  Replies to the calls made under consecutive handles from \<open>n\<close> on: the \<open>k\<close>-th pair
  \<open>(success, result)\<close> completes the call with handle \<open>n + k\<close>.
\<close>

primrec repliesFrom :: "Handle \<Rightarrow> (bool \<times> api_result) list \<Rightarrow> event list" where
  "repliesFrom n [] = []"
| "repliesFrom n (x # xs) = EvReply n (fst x) (snd x) [] None # repliesFrom (Suc n) xs"

text \<open>The callback and the handle of an invocation, and those of a pending reply.\<close>

definition calledWith :: "Delivery \<Rightarrow> nat option \<times> Handle" where
  "calledWith x = (Some (d_callback x), d_handle x)"

definition issuerOf :: "PendingReply \<Rightarrow> nat option \<times> Handle" where
  "issuerOf p = (ctx_callback (p_ctx p), p_handle p)"


text \<open>
  The reply that finds no reauthorization under way and calls \<^verbatim>\<open>refreshToken\<close>:
  while that call is active the replies \<open>others\<close> arrive, then it returns \<open>token\<close>.
  \<open>insideRefresh\<close> is the state of the connection at the moment the call returns.
\<close>

definition firstReply :: "PendingReply \<Rightarrow> PendingReply list \<Rightarrow> AuthToken option \<Rightarrow> event" where
  "firstReply p others token =
     EvReply (p_handle p) (p_success p) (p_result p) (map replyEvent others) token"

definition insideRefresh ::
  "PendingReply \<Rightarrow> PendingReply list \<Rightarrow> ServerConnection \<Rightarrow> ServerConnection" where
  "insideRefresh p others d =
     run (map replyEvent others)
       (beforeRefresh (updateContext (p_ctx p) (p_success p) (p_result p)) (retryOf p)
          (d\<lparr>inflight := (inflight d)(p_handle p := None)\<rparr>))"



section \<open>Lemmas about the operations\<close>

subsection \<open>Request preparation\<close>

lemma setupAuth_None_iff:
  "setupAuth context isClient audit request url user = None \<longleftrightarrow>
     (case context of
        None \<Rightarrow> True
      | Some sc \<Rightarrow> sc_server sc = None \<or> sc_messageBusConnection sc = None)"
  by (auto simp: setupAuth_def Let_def split: option.splits)

lemma isValid_defaultRequest: "\<not> isValid defaultRequest"
  by (simp add: isValid_def defaultRequest_def)

lemma prepareRequest_unavailable:
  assumes "directConnect d = None"
    and "case systemContext d of
           None \<Rightarrow> True
         | Some sc \<Rightarrow> sc_server sc = None \<or> sc_messageBusConnection sc = None"
  shows "prepareRequest method url contentType body d = defaultRequest"
  using assms
    setupAuth_None_iff
      [of "systemContext d" "localPeerIsClient d" "auditId d" defaultRequest url "userId d"]
  by (simp add: prepareRequest_def)

subsection \<open>Retrying and draining\<close>

lemma retry_None:
  "alive d \<Longrightarrow> retry (Retry ctx h s r) None d = deliver (ctx_callback ctx) s h r d"
  by (simp add: retry.simps)

lemma retry_Some:
  "alive d \<Longrightarrow> certificateVerifier d \<Longrightarrow>
   retry (Retry ctx h s r) (Some t) d =
     d\<lparr>nextHandle := Suc (nextHandle d),
       inflight := (inflight d)(nextHandle d \<mapsto> FixedCallback ctx h),
       sent := sent d @ [(nextHandle d, fixedRequest ctx r t)],
       substitutions := (substitutions d)(h \<mapsto> nextHandle d)\<rparr>"
  by (simp add: retry.simps executeRequest_def Let_def)

lemma retry_storedRequests_update:
  "retry f token (d\<lparr>storedRequests := x\<rparr>) = (retry f token d)\<lparr>storedRequests := x\<rparr>"
  by (cases f)
     (simp add: retry.simps Let_def deliver_def executeRequest_def certificateVerifier_def
        split: option.splits)

lemma certificateVerifier_frame:
  "directConnect d' = directConnect d \<Longrightarrow> systemContext d' = systemContext d
     \<Longrightarrow> certificateVerifier d' = certificateVerifier d"
  by (auto simp: certificateVerifier_def split: option.splits)

lemma retry_frame:
  "alive (retry f tk d) = alive d"
  "tokenHeap (retry f tk d) = tokenHeap d"
  "reissuedToken (retry f tk d) = reissuedToken d"
  "tokenCount (retry f tk d) = tokenCount d"
  "refreshCalls (retry f tk d) = refreshCalls d"
  "directConnect (retry f tk d) = directConnect d"
  "systemContext (retry f tk d) = systemContext d"
  "terminated (retry f tk d) = terminated d"
  by (cases f; simp add: retry.simps Let_def deliver_def executeRequest_def
        split: option.splits)+

lemma foldl_retry_frame:
  "alive (foldl (\<lambda>d f. retry f tk d) d fs) = alive d
   \<and> tokenHeap (foldl (\<lambda>d f. retry f tk d) d fs) = tokenHeap d
   \<and> reissuedToken (foldl (\<lambda>d f. retry f tk d) d fs) = reissuedToken d
   \<and> tokenCount (foldl (\<lambda>d f. retry f tk d) d fs) = tokenCount d
   \<and> refreshCalls (foldl (\<lambda>d f. retry f tk d) d fs) = refreshCalls d
   \<and> directConnect (foldl (\<lambda>d f. retry f tk d) d fs) = directConnect d
   \<and> systemContext (foldl (\<lambda>d f. retry f tk d) d fs) = systemContext d
   \<and> terminated (foldl (\<lambda>d f. retry f tk d) d fs) = terminated d
   \<and> storedRequests (foldl (\<lambda>d f. retry f tk d) d fs) = storedRequests d"
  by (induction fs rule: rev_induct) (simp_all add: retry_frame)

text \<open>The loop over the stored requests applies the retry functions in queue order.\<close>

lemma drain_foldl:
  "drain token d = foldl (\<lambda>d f. retry f token d) (d\<lparr>storedRequests := []\<rparr>) (storedRequests d)"
proof (induction "storedRequests d" arbitrary: d)
  case Nil
  then show ?case by (subst drain.simps) simp
next
  case (Cons f rest)
  have "drain token d = drain token (retry f token (d\<lparr>storedRequests := rest\<rparr>))"
    using Cons.hyps(2) [symmetric] by (subst drain.simps) simp
  also have "\<dots> = foldl (\<lambda>d f. retry f token d)
                      ((retry f token (d\<lparr>storedRequests := rest\<rparr>))\<lparr>storedRequests := []\<rparr>) rest"
    using Cons.hyps(1) [of "retry f token (d\<lparr>storedRequests := rest\<rparr>)"] by simp
  also have "(retry f token (d\<lparr>storedRequests := rest\<rparr>))\<lparr>storedRequests := []\<rparr>
               = retry f token (d\<lparr>storedRequests := []\<rparr>)"
    by (simp add: retry_storedRequests_update)
  finally show ?case using Cons.hyps(2) [symmetric] by simp
qed

fun invocationOf :: "ResendRequestFunc \<Rightarrow> Delivery list" where
  "invocationOf (Retry ctx h s r) = invocation (ctx_callback ctx) s h r"

lemma foldl_retry_None:
  assumes "alive d"
  shows "foldl (\<lambda>d f. retry f None d) d fs =
           d\<lparr>delivered := delivered d @ concat (map invocationOf fs)\<rparr>"
proof (induction fs rule: rev_induct)
  case Nil
  then show ?case by simp
next
  case (snoc f fs)
  obtain ctx h s r where f: "f = Retry ctx h s r" by (cases f)
  show ?case using snoc assms by (simp add: f deliver_def retry_None foldl_retry_frame)
qed

lemma foldl_retry_Some:
  assumes "alive d" "certificateVerifier d"
  shows "delivered (foldl (\<lambda>d f. retry f (Some t) d) d fs) = delivered d
    \<and> nextHandle (foldl (\<lambda>d f. retry f (Some t) d) d fs) = nextHandle d + length fs
    \<and> (\<forall>i<length fs. inflight (foldl (\<lambda>d f. retry f (Some t) d) d fs) (nextHandle d + i)
                        = Some (fixedOf (fs ! i)))
    \<and> (\<forall>k<nextHandle d. inflight (foldl (\<lambda>d f. retry f (Some t) d) d fs) k = inflight d k)"
proof (induction fs rule: rev_induct)
  case Nil
  then show ?case by simp
next
  case (snoc f fs)
  let ?d1 = "foldl (\<lambda>d f. retry f (Some t) d) d fs"
  obtain ctx h s r where f: "f = Retry ctx h s r" by (cases f)
  have a: "alive ?d1" using assms(1) by (simp add: foldl_retry_frame)
  have v: "certificateVerifier ?d1"
    using assms(2) certificateVerifier_frame [of ?d1 d] by (simp add: foldl_retry_frame)
  have r: "retry (Retry ctx h s r) (Some t) ?d1 =
     ?d1\<lparr>nextHandle := Suc (nextHandle ?d1),
       inflight := (inflight ?d1)(nextHandle ?d1 \<mapsto> FixedCallback ctx h),
       sent := sent ?d1 @ [(nextHandle ?d1, fixedRequest ctx r t)],
       substitutions := (substitutions ?d1)(h \<mapsto> nextHandle ?d1)\<rparr>"
    using a v by (rule retry_Some)
  show ?case using snoc by (auto simp: r nth_append f)
qed

subsection \<open>Installing the token\<close>

lemma installToken_frame:
  "alive (installToken ctx token d) = alive d"
  "storedRequests (installToken ctx token d) = storedRequests d"
  "delivered (installToken ctx token d) = delivered d"
  "refreshCalls (installToken ctx token d) = refreshCalls d"
  "inflight (installToken ctx token d) = inflight d"
  "nextHandle (installToken ctx token d) = nextHandle d"
  "sent (installToken ctx token d) = sent d"
  "substitutions (installToken ctx token d) = substitutions d"
  "terminated (installToken ctx token d) = terminated d"
  "systemContext (installToken ctx token d) = systemContext d"
  "reissuedToken (installToken ctx token d) = tokenCount d"
  "tokenCount (installToken ctx token d) = Suc (tokenCount d)"
  by (simp_all add: installToken_def Let_def)


lemma installToken_verifier:
  "certificateVerifier (installToken ctx token d) = certificateVerifier d"
  by (cases "directConnect d"; cases token)
     (simp_all add: installToken_def Let_def certificateVerifier_def)

lemma afterRefresh_foldl:
  "alive d \<Longrightarrow>
   afterRefresh ctx token d =
     foldl (\<lambda>d f. retry f token d) ((installToken ctx token d)\<lparr>storedRequests := []\<rparr>)
       (storedRequests d)"
  by (simp add: afterRefresh_def drain_foldl installToken_frame)

subsection \<open>Replies\<close>

lemma updateContext_simps [simp]:
  "ctx_reissuedToken (updateContext ctx s r) = ctx_reissuedToken ctx"
  "ctx_callback (updateContext ctx s r) = ctx_callback ctx"
  "ctx_helper (updateContext ctx s r) = ctx_helper ctx"
  "ctx_request (updateContext ctx s r) = ctx_request ctx"
  "requestData (updateContext ctx s r) = requestData ctx"
  by (simp_all add: updateContext_def split: api_result.splits)

lemma fixedCallback_eq:
  "alive d \<Longrightarrow>
   fixedCallback ctx H s h r d =
     d\<lparr>substitutions := (substitutions d)(H := None),
       delivered := delivered d @ resendInvocation ctx H s r\<rparr>"
  by (simp add: fixedCallback_def resendInvocation_def deliver_def Let_def
      split: api_result.splits)

lemma step_fixed:
  "alive d \<Longrightarrow> inflight d k = Some (FixedCallback ctx H) \<Longrightarrow>
   step (EvReply k s r ns tk) d =
     d\<lparr>inflight := (inflight d)(k := None),
       substitutions := (substitutions d)(H := None),
       delivered := delivered d @ resendInvocation ctx H s r\<rparr>"
  by (simp add: fixedCallback_eq)

lemma step_reply_enqueued:
  assumes "alive d" "storedRequests d \<noteq> []" "expires d p"
  shows "step (replyEvent p) d =
           d\<lparr>inflight := (inflight d)(p_handle p := None),
             storedRequests := storedRequests d @ [retryOf p]\<rparr>"
  using assms
  by (simp add: replyEvent_def expires_def isFirstFailedRequest_def laterFailedRequest_def
      retryOf_def)

lemma step_firstReply:
  assumes "alive d" "storedRequests d = []" "expires d p"
  shows "step (firstReply p others token) d =
           afterRefresh (updateContext (p_ctx p) (p_success p) (p_result p)) token
             (insideRefresh p others d)"
  using assms
  by (simp add: firstReply_def insideRefresh_def expires_def isFirstFailedRequest_def
      retryOf_def)

lemma step_unknown_handle: "inflight d k = None \<Longrightarrow> step (EvReply k s r ns tk) d = d"
  by simp

declare step.simps(1) [simp del]

lemma handles_differ:
  "distinct (map p_handle (p # ps)) \<Longrightarrow> q \<in> set ps \<Longrightarrow> p_handle q \<noteq> p_handle p"
  by (metis distinct.simps(2) image_eqI list.simps(9) set_map)

lemma run_replies_enqueued:
  assumes "alive d" "storedRequests d \<noteq> []" "distinct (map p_handle ps)"
    "\<forall>p\<in>set ps. expires d p"
  shows "run (map replyEvent ps) d =
           d\<lparr>inflight := (inflight d) |` (- set (map p_handle ps)),
             storedRequests := storedRequests d @ map retryOf ps\<rparr>"
  using assms
proof (induction ps arbitrary: d)
  case Nil
  then show ?case by simp
next
  case (Cons p ps)
  let ?d1 = "d\<lparr>inflight := (inflight d)(p_handle p := None),
               storedRequests := storedRequests d @ [retryOf p]\<rparr>"
  have s: "step (replyEvent p) d = ?d1"
    using Cons.prems by (simp add: step_reply_enqueued)
  have e: "\<forall>q\<in>set ps. expires ?d1 q"
  proof
    fix q assume q: "q \<in> set ps"
    then have "p_handle q \<noteq> p_handle p"
      using Cons.prems(3) by (rule handles_differ [rotated])
    moreover have "expires d q" using q Cons.prems(4) by simp
    ultimately show "expires ?d1 q" by (simp add: expires_def)
  qed
  have "run (map replyEvent ps) ?d1 =
          ?d1\<lparr>inflight := (inflight ?d1) |` (- set (map p_handle ps)),
              storedRequests := storedRequests ?d1 @ map retryOf ps\<rparr>"
    using Cons.prems e by (intro Cons.IH) simp_all
  moreover have "((inflight d)(p_handle p := None)) |` (- set (map p_handle ps))
                   = (inflight d) |` (- set (map p_handle (p # ps)))"
    by (auto simp: restrict_map_def fun_eq_iff)
  ultimately show ?case using s by simp
qed

lemma insideRefresh_eq:
  assumes "alive d" "distinct (map p_handle (p # others))" "\<forall>q\<in>set others. expires d q"
  shows "insideRefresh p others d =
           d\<lparr>inflight := (inflight d) |` (- set (map p_handle (p # others))),
             storedRequests := storedRequests d @ map retryOf (p # others),
             refreshCalls := refreshCalls d @ [ctx_helper (p_ctx p)]\<rparr>"
proof -
  let ?d0 = "beforeRefresh (updateContext (p_ctx p) (p_success p) (p_result p)) (retryOf p)
               (d\<lparr>inflight := (inflight d)(p_handle p := None)\<rparr>)"
  have e: "\<forall>q\<in>set others. expires ?d0 q"
  proof
    fix q assume q: "q \<in> set others"
    then have "p_handle q \<noteq> p_handle p"
      using assms(2) by (rule handles_differ [rotated])
    moreover have "expires d q" using q assms(3) by simp
    ultimately show "expires ?d0 q" by (simp add: expires_def beforeRefresh_def)
  qed
  have "run (map replyEvent others) ?d0 =
          ?d0\<lparr>inflight := (inflight ?d0) |` (- set (map p_handle others)),
              storedRequests := storedRequests ?d0 @ map retryOf others\<rparr>"
    using assms e by (intro run_replies_enqueued) (simp_all add: beforeRefresh_def)
  moreover have "((inflight d)(p_handle p := None)) |` (- set (map p_handle others))
                   = (inflight d) |` (- set (map p_handle (p # others)))"
    by (auto simp: restrict_map_def fun_eq_iff)
  ultimately show ?thesis
    by (simp add: insideRefresh_def beforeRefresh_def)
qed

fun resendInvocationOf :: "ResendRequestFunc \<Rightarrow> bool \<times> api_result \<Rightarrow> Delivery list" where
  "resendInvocationOf (Retry ctx h s0 r0) x = resendInvocation ctx h (fst x) (snd x)"

lemma run_repliesFrom:
  assumes "alive d" "length xs = length fs"
    "\<forall>i<length fs. inflight d (n + i) = Some (fixedOf (fs ! i))"
  shows "delivered (run (repliesFrom n xs) d)
           = delivered d @ concat (map2 resendInvocationOf fs xs)
         \<and> refreshCalls (run (repliesFrom n xs) d) = refreshCalls d
         \<and> sent (run (repliesFrom n xs) d) = sent d
         \<and> storedRequests (run (repliesFrom n xs) d) = storedRequests d"
  using assms
proof (induction fs arbitrary: d n xs)
  case Nil
  then show ?case by simp
next
  case (Cons f fs)
  obtain x xs' where xs: "xs = x # xs'" using Cons.prems(2) by (cases xs) auto
  obtain ctx H s0 r0 where f: "f = Retry ctx H s0 r0" by (cases f)
  have i0: "inflight d n = Some (FixedCallback ctx H)"
    using Cons.prems(3) f by force
  let ?d1 = "d\<lparr>inflight := (inflight d)(n := None),
               substitutions := (substitutions d)(H := None),
               delivered := delivered d @ resendInvocation ctx H (fst x) (snd x)\<rparr>"
  have s: "step (EvReply n (fst x) (snd x) [] None) d = ?d1"
    using Cons.prems(1) i0 by (rule step_fixed)
  have p: "\<forall>i<length fs. inflight ?d1 (Suc n + i) = Some (fixedOf (fs ! i))"
  proof (intro allI impI)
    fix i assume "i < length fs"
    then have "inflight d (n + Suc i) = Some (fixedOf ((f # fs) ! Suc i))"
      using Cons.prems(3) by (metis Suc_less_eq length_Cons)
    then show "inflight ?d1 (Suc n + i) = Some (fixedOf (fs ! i))" by simp
  qed
  have "delivered (run (repliesFrom (Suc n) xs') ?d1)
           = delivered ?d1 @ concat (map2 resendInvocationOf fs xs')
         \<and> refreshCalls (run (repliesFrom (Suc n) xs') ?d1) = refreshCalls ?d1
         \<and> sent (run (repliesFrom (Suc n) xs') ?d1) = sent ?d1
         \<and> storedRequests (run (repliesFrom (Suc n) xs') ?d1) = storedRequests ?d1"
    using Cons.prems xs p by (intro Cons.IH) simp_all
  then show ?case by (simp add: xs s f)
qed

lemma run_repliesFrom_idle:
  "\<forall>k. n \<le> k \<longrightarrow> inflight d k = None \<Longrightarrow> run (repliesFrom n xs) d = d"
  by (induction xs arbitrary: n) (simp_all add: step_unknown_handle)

subsection \<open>The first reply, later replies and batches\<close>

lemma firstReply_alone:
  assumes "alive d" "certificateVerifier d" "storedRequests d = []" "expires d p"
  shows "step (firstReply p [] (Some t)) d =
           (installToken (updateContext (p_ctx p) (p_success p) (p_result p)) (Some t) d)
             \<lparr>storedRequests := [],
              refreshCalls := refreshCalls d @ [ctx_helper (p_ctx p)],
              nextHandle := Suc (nextHandle d),
              inflight := (inflight d)
                 (p_handle p := None,
                  nextHandle d \<mapsto>
                    FixedCallback (updateContext (p_ctx p) (p_success p) (p_result p)) (p_handle p)),
              sent := sent d @ [(nextHandle d,
                        fixedRequest (updateContext (p_ctx p) (p_success p) (p_result p))
                          (p_result p) t)],
              substitutions := (substitutions d)(p_handle p \<mapsto> nextHandle d)\<rparr>"
proof -
  let ?ctx = "updateContext (p_ctx p) (p_success p) (p_result p)"
  let ?i = "d\<lparr>inflight := (inflight d) |` (- set (map p_handle [p])),
             storedRequests := storedRequests d @ map retryOf [p],
             refreshCalls := refreshCalls d @ [ctx_helper (p_ctx p)]\<rparr>"
  have i: "insideRefresh p [] d = ?i"
    using assms(1) by (intro insideRefresh_eq) simp_all
  let ?j = "(installToken ?ctx (Some t) ?i)\<lparr>storedRequests := []\<rparr>"
  have a: "alive ?j" using assms(1) by (simp add: installToken_frame)
  have v: "certificateVerifier ?j"
    using assms(2) certificateVerifier_frame [of ?j "installToken ?ctx (Some t) ?i"]
      certificateVerifier_frame [of ?i d]
    by (simp add: installToken_verifier)
  have r: "(inflight d) |` (- {p_handle p}) = (inflight d)(p_handle p := None)"
    by (auto simp: restrict_map_def fun_eq_iff)
  have "step (firstReply p [] (Some t)) d = afterRefresh ?ctx (Some t) ?i"
    using assms i by (simp add: step_firstReply)
  also have "\<dots> = retry (retryOf p) (Some t) ?j"
    using assms(1,3) by (simp add: afterRefresh_foldl)
  also have "\<dots> = ?j\<lparr>nextHandle := Suc (nextHandle ?j),
       inflight := (inflight ?j)(nextHandle ?j \<mapsto> FixedCallback ?ctx (p_handle p)),
       sent := sent ?j @ [(nextHandle ?j, fixedRequest ?ctx (p_result p) t)],
       substitutions := (substitutions ?j)(p_handle p \<mapsto> nextHandle ?j)\<rparr>"
    using retry_Some [OF a v, of ?ctx "p_handle p" "p_success p" "p_result p" t]
    by (simp add: retryOf_def)
  finally show ?thesis
    by (simp add: installToken_def Let_def r)
qed

lemma collectExpired_eq:
  "collectExpired rs ids =
     ids \<union> {i. i \<noteq> None \<and> (\<exists>a\<in>set rs. isSessionExpiredResponse a \<and> resp_id a = i)}"
proof (induction rs arbitrary: ids)
  case Nil
  then show ?case by simp
next
  case (Cons b rs)
  show ?case
  proof (cases "isSessionExpiredResponse b")
    case False
    then show ?thesis by (auto simp: Cons)
  next
    case True
    then show ?thesis
      by (cases "resp_id b") (auto simp: Cons split: JsonRpcId.splits)
  qed
qed

lemma buildIdToResponse_lookup:
  "buildIdToResponse rs m k =
     (case m k of
        Some x \<Rightarrow> Some x
      | None \<Rightarrow> if k = None then None else find (\<lambda>x. resp_id x = k) rs)"
proof (induction rs arbitrary: m)
  case Nil
  then show ?case by (simp split: option.splits)
next
  case (Cons a rs)
  show ?case by (auto simp: Cons split: option.splits)
qed

lemma mergeJsonRpcResults_Array:
  "mergeJsonRpcResults orig (Inr (Array resent)) =
     (True,
      map (\<lambda>a. case (if resp_id a = None then None
                      else find (\<lambda>x. resp_id x = resp_id a) resent) of
                  Some x \<Rightarrow> x
                | None \<Rightarrow> a) orig)"
  by (simp add: mergeJsonRpcResults_def Let_def buildIdToResponse_lookup)

lemma mergeJsonRpcResults_error:
  "mergeJsonRpcResults orig (Inl e) =
     (True,
      map (\<lambda>a. if isSessionExpiredResponse a
               then makeError (resp_id a) applicationError (errorString e) e
               else a) orig)"
  by (simp add: mergeJsonRpcResults_def)

lemma requestNewSession_batch:
  "requestNewSession True (JsonRpc (Inr (Array orig))) \<longleftrightarrow>
     (\<exists>a\<in>set orig. isSessionExpiredResponse a \<and> resp_id a \<noteq> None)"
  by (auto simp: requestNewSession_def extractJsonRpcExpired_def collectExpired_eq)

lemma updateContext_batch:
  "updateContext ctx True (JsonRpc (Inr (Array orig))) =
     ctx\<lparr>expiredIds :=
           {i. i \<noteq> None \<and> (\<exists>a\<in>set orig. isSessionExpiredResponse a \<and> resp_id a = i)},
         originalResponse := orig\<rparr>"
  by (simp add: updateContext_def extractJsonRpcExpired_def collectExpired_eq)

lemma resendInvocation_single:
  "ctx_callback ctx = Some cb \<Longrightarrow>
   \<exists>x. resendInvocation ctx H s r = [x] \<and> d_callback x = cb \<and> d_handle x = H"
  by (auto simp: resendInvocation_def invocation_def split: api_result.splits)

lemma step_while_refreshing:
  assumes "storedRequests d \<noteq> []"
  shows "refreshCalls (step e d) = refreshCalls d \<and> storedRequests (step e d) \<noteq> []"
proof (cases e)
  case (EvReply h s r ns tk)
  show ?thesis
  proof (cases "inflight d h")
    case None
    then show ?thesis using assms by (simp add: EvReply step.simps(1))
  next
    case (Some c)
    show ?thesis
    proof (cases c)
      case (SessionAwareCallback ctx)
      then show ?thesis
        using assms Some
        by (simp add: EvReply step.simps(1) isFirstFailedRequest_def laterFailedRequest_def
            deliver_def retry_frame)
    next
      case (FixedCallback ctx H)
      then show ?thesis
        using assms Some
        by (simp add: EvReply step.simps(1) fixedCallback_def deliver_def Let_def
            split: api_result.splits)
    next
      case (PlainCallback cb)
      then show ?thesis
        using assms Some by (simp add: EvReply step.simps(1) deliver_def)
    qed
  qed
next
  case (EvSendRequest helper m url body cb)
  then show ?thesis
    using assms by (simp add: sendRequest_def Let_def executeRequest_def)
next
  case (EvJsonRpcBatchCall helper requests cb)
  then show ?thesis
    using assms by (simp add: jsonRpcBatchCall_def Let_def executeRequest_def)
next
  case (EvCancelRequest h)
  then show ?thesis
    using assms by (simp add: cancelRequest_def terminate_def split: option.splits)
next
  case (EvUpdateCredentials c)
  then show ?thesis
    using assms by (simp add: updateCredentials_def split: option.splits)
next
  case EvDestroyed
  then show ?thesis using assms by simp
qed

lemma run_while_refreshing:
  "storedRequests d \<noteq> [] \<Longrightarrow>
   refreshCalls (run es d) = refreshCalls d \<and> storedRequests (run es d) \<noteq> []"
proof (induction es arbitrary: d)
  case Nil
  then show ?case by simp
next
  case (Cons e es)
  then show ?case using step_while_refreshing [of d e] by simp
qed

lemma afterRefresh_refreshCalls:
  "refreshCalls (afterRefresh ctx token d) = refreshCalls d"
  by (simp add: afterRefresh_def drain_foldl foldl_retry_frame installToken_frame)

lemma first_reply_refreshes_once:
  assumes "alive d" "storedRequests d = []"
    "inflight d h = Some (SessionAwareCallback ctx)" "requestNewSession s r"
    "\<not> hasValue (tokenHeap d (ctx_reissuedToken ctx))"
  shows "refreshCalls (step (EvReply h s r es token) d) = refreshCalls d @ [ctx_helper ctx]"
proof -
  let ?d0 = "beforeRefresh (updateContext ctx s r) (Retry (updateContext ctx s r) h s r)
               (d\<lparr>inflight := (inflight d)(h := None)\<rparr>)"
  have "step (EvReply h s r es token) d = afterRefresh (updateContext ctx s r) token (run es ?d0)"
    using assms by (simp add: step.simps(1) isFirstFailedRequest_def)
  moreover have "refreshCalls (run es ?d0) = refreshCalls ?d0"
    by (intro run_while_refreshing [THEN conjunct1]) (simp add: beforeRefresh_def)
  ultimately show ?thesis
    by (simp add: afterRefresh_refreshCalls beforeRefresh_def)
qed

lemma invocationOf_retryOf: "invocationOf (retryOf p) = originalInvocation p"
  by (simp add: retryOf_def originalInvocation_def)

lemma insideRefresh_alive:
  assumes "alive d" "distinct (map p_handle (p # others))" "\<forall>q\<in>set others. expires d q"
  shows "alive (insideRefresh p others d)"
  using assms by (simp add: insideRefresh_eq)

lemma firstReply_declined:
  assumes "alive d" "storedRequests d = []" "distinct (map p_handle (p # others))"
    "\<forall>q\<in>set (p # others). expires d q"
  shows "step (firstReply p others None) d =
           (installToken (updateContext (p_ctx p) (p_success p) (p_result p)) None d)
             \<lparr>inflight := (inflight d) |` (- set (map p_handle (p # others))),
              storedRequests := [],
              refreshCalls := refreshCalls d @ [ctx_helper (p_ctx p)],
              delivered := delivered d @ concat (map originalInvocation (p # others))\<rparr>"
proof -
  let ?ctx = "updateContext (p_ctx p) (p_success p) (p_result p)"
  let ?i = "d\<lparr>inflight := (inflight d) |` (- set (map p_handle (p # others))),
             storedRequests := storedRequests d @ map retryOf (p # others),
             refreshCalls := refreshCalls d @ [ctx_helper (p_ctx p)]\<rparr>"
  have i: "insideRefresh p others d = ?i"
    using assms by (intro insideRefresh_eq) simp_all
  let ?j = "(installToken ?ctx None ?i)\<lparr>storedRequests := []\<rparr>"
  have a: "alive ?j" using assms(1) by (simp add: installToken_frame)
  have "step (firstReply p others None) d = afterRefresh ?ctx None ?i"
    using assms i by (simp add: step_firstReply)
  also have "\<dots> = foldl (\<lambda>d f. retry f None d) ?j (map retryOf (p # others))"
    using assms(1,2) by (simp add: afterRefresh_foldl)
  also have "\<dots> = ?j\<lparr>delivered := delivered ?j
                         @ concat (map invocationOf (map retryOf (p # others)))\<rparr>"
    using a by (rule foldl_retry_None)
  finally show ?thesis
    by (simp add: installToken_def Let_def invocationOf_retryOf comp_def)
qed

lemma calledWith_originalInvocations:
  "\<forall>p\<in>set ps. ctx_callback (p_ctx p) \<noteq> None \<Longrightarrow>
   map calledWith (concat (map originalInvocation ps)) = map issuerOf ps"
  by (induction ps)
     (auto simp: originalInvocation_def invocation_def calledWith_def issuerOf_def)

lemma calledWith_resendInvocation:
  "ctx_callback ctx = Some cb \<Longrightarrow>
   map calledWith (resendInvocation ctx H s r) = [(Some cb, H)]"
  using resendInvocation_single [of ctx cb H s r] by (auto simp: calledWith_def)

lemma calledWith_resendInvocations:
  "\<forall>p\<in>set ps. ctx_callback (p_ctx p) \<noteq> None \<Longrightarrow> length xs = length ps \<Longrightarrow>
   map calledWith (concat (map2 resendInvocationOf (map retryOf ps) xs)) = map issuerOf ps"
proof (induction ps arbitrary: xs)
  case Nil
  then show ?case by simp
next
  case (Cons p ps)
  obtain x xs' where xs: "xs = x # xs'" using Cons.prems(2) by (cases xs) auto
  obtain cb where cb: "ctx_callback (p_ctx p) = Some cb" using Cons.prems(1) by auto
  have "map calledWith (resendInvocationOf (retryOf p) x) = [issuerOf p]"
    using calledWith_resendInvocation
      [of "updateContext (p_ctx p) (p_success p) (p_result p)" cb "p_handle p" "fst x" "snd x"]
      cb
    by (simp add: retryOf_def issuerOf_def)
  moreover have "map calledWith (concat (map2 resendInvocationOf (map retryOf ps) xs'))
                   = map issuerOf ps"
    using Cons.prems xs by (intro Cons.IH) simp_all
  ultimately show ?case by (simp add: xs)
qed

lemma insideRefresh_frame:
  assumes "alive d" "distinct (map p_handle (p # others))" "\<forall>q\<in>set others. expires d q"
  shows "alive (insideRefresh p others d)"
    and "certificateVerifier (insideRefresh p others d) = certificateVerifier d"
    and "nextHandle (insideRefresh p others d) = nextHandle d"
    and "delivered (insideRefresh p others d) = delivered d"
    and "sent (insideRefresh p others d) = sent d"
    and "substitutions (insideRefresh p others d) = substitutions d"
    and "tokenCount (insideRefresh p others d) = tokenCount d"
    and "tokenHeap (insideRefresh p others d) = tokenHeap d"
    and "refreshCalls (insideRefresh p others d) = refreshCalls d @ [ctx_helper (p_ctx p)]"
    and "storedRequests (insideRefresh p others d)
           = storedRequests d @ map retryOf (p # others)"
    and "inflight (insideRefresh p others d)
           = (inflight d) |` (- set (map p_handle (p # others)))"
  using assms(1)
  by (simp_all add: insideRefresh_eq [OF assms] certificateVerifier_def split: option.splits)

lemma firstReply_foldl:
  assumes "alive d" "storedRequests d = []" "distinct (map p_handle (p # others))"
    "\<forall>q\<in>set (p # others). expires d q"
  shows "step (firstReply p others token) d =
           foldl (\<lambda>d f. retry f token d)
             ((installToken (updateContext (p_ctx p) (p_success p) (p_result p)) token
                 (insideRefresh p others d))
                \<lparr>storedRequests := []\<rparr>)
             (map retryOf (p # others))"
proof -
  have eo: "\<forall>q\<in>set others. expires d q" using assms(4) by simp
  note fr = insideRefresh_frame [OF assms(1,3) eo]
  have "step (firstReply p others token) d =
          afterRefresh (updateContext (p_ctx p) (p_success p) (p_result p)) token
            (insideRefresh p others d)"
    using assms by (simp add: step_firstReply)
  then show ?thesis
    using fr(1) fr(10) assms(2) by (simp add: afterRefresh_foldl)
qed




lemma requestNewSession_Raw:
  "requestNewSession success (Raw body hdrs) \<longleftrightarrow>
     \<not> success \<and> (\<exists>r. deserializeResult body = Some r \<and> isSessionExpiredError (errorId r))"
  by (auto simp: requestNewSession_def isSessionExpiredError_def Let_def split: option.splits)

lemma requestNewSession_Typed:
  "requestNewSession success (Typed r) \<longleftrightarrow>
     \<not> success \<and> (\<exists>e. r = Inl e \<and> isSessionExpiredError (errorId e))"
  by (cases r) (auto simp: requestNewSession_def isSessionExpiredError_def Let_def)

lemma typed_reply_never_expired:
  "\<not> requestNewSession (fst (replyHandler emptyType deserialize parseRestResult reply))
        (snd (replyHandler emptyType deserialize parseRestResult reply))"
  by (auto simp: requestNewSession_def replyHandler_def Let_def parseMessageBody_ErrorOrData_def
      parseMessageBody_Result_def defaultResult_def Result_notImplemented_def
      isSessionExpiredError_def split: option.splits)

lemma merge_plain_ids:
  assumes "(\<forall>x\<in>set resent. resp_id x \<noteq> None) \<or> (\<forall>a\<in>set orig. resp_id a \<noteq> None)"
  shows "map (\<lambda>a. case (if resp_id a = None then None
                         else find (\<lambda>x. resp_id x = resp_id a) resent) of
                    Some x \<Rightarrow> x
                  | None \<Rightarrow> a) orig
         = map (\<lambda>a. case find (\<lambda>x. resp_id x = resp_id a) resent of
                      Some x \<Rightarrow> x
                    | None \<Rightarrow> a) orig"
proof (rule map_cong [OF refl])
  fix a
  assume a: "a \<in> set orig"
  show "(case (if resp_id a = None then None
               else find (\<lambda>x. resp_id x = resp_id a) resent) of
           Some x \<Rightarrow> x
         | None \<Rightarrow> a)
        = (case find (\<lambda>x. resp_id x = resp_id a) resent of Some x \<Rightarrow> x | None \<Rightarrow> a)"
  proof (cases "resp_id a = None")
    case False
    then show ?thesis by auto
  next
    case True
    then have "\<forall>x\<in>set resent. resp_id x \<noteq> None" using assms a by auto
    then have "find (\<lambda>x. resp_id x = resp_id a) resent = None"
      using True by (simp add: find_None_iff)
    then show ?thesis using True by simp
  qed
qed






section \<open>Concrete connections\<close>

text \<open>
  Two connections for evaluating the operations: a direct connection with session
  credentials, and a connection through a system context that knows no server resource
  and has no message bus connection.
\<close>

definition exampleCredentials :: Credentials where
  "exampleCredentials =
     \<lparr>username = ''Admin'', authToken = \<lparr>token_value = ''t0'', token_type = bearer\<rparr>\<rparr>"

definition exampleDirect :: ServerConnection where
  "exampleDirect =
     newDirectConnection ''audit'' True (''10.0.0.1'', 7001) exampleCredentials True ''en_US'' 1"

definition exampleContext :: SystemContext where
  "exampleContext =
     \<lparr>sc_certificateVerifier = True, sc_server = None,
      sc_route = \<lparr>reverseConnect = False, route_addr = None, route_gatewayId = None\<rparr>,
      sc_messageBusConnection = None, sc_currentServer = None, sc_userName = None\<rparr>"

definition exampleUnconnected :: ServerConnection where
  "exampleUnconnected = newConnection exampleContext ''audit'' True ''en_US'' 1"

definition exampleUrl :: Url where
  "exampleUrl = emptyUrl\<lparr>url_path := ''/rest/v3/system/cloud/unbind''\<rparr>"

definition exampleRequest :: Request where
  "exampleRequest = prepareRequest ''POST'' exampleUrl kJsonContentType (Bytes ''{}'') exampleDirect"

definition exampleCtx :: "nat \<Rightarrow> InteractionContext" where
  "exampleCtx cb =
     \<lparr>ctx_helper = 7, ctx_reissuedToken = 0, ctx_request = exampleRequest,
      ctx_callback = Some cb, expiredIds = {}, originalResponse = [], requestData = []\<rparr>"

definition exampleBusy :: ServerConnection where
  "exampleBusy =
     run [EvSendRequest (Some 7) ''POST'' exampleUrl (Bytes ''{}'') (Some 1),
          EvSendRequest (Some 7) ''POST'' exampleUrl (Bytes ''{}'') (Some 2)] exampleDirect"

lemma prepareRequest_transport:
  "prepareRequest m u c b (d\<lparr>nextHandle := n, inflight := i, sent := q\<rparr>) = prepareRequest m u c b d"
  by (simp add: prepareRequest_def split: option.splits)

lemma isValid_exampleRequest: "isValid exampleRequest"
  by (simp add: exampleRequest_def prepareRequest_def exampleDirect_def newDirectConnection_def
      setupAuthDirect_def emplaceHeader_def isValid_def emptyUrl_def defaultRequest_def)

lemma exampleBusy_eq:
  "exampleBusy =
     exampleDirect
       \<lparr>nextHandle := 3,
        inflight := [1 \<mapsto> SessionAwareCallback (exampleCtx 1),
                     2 \<mapsto> SessionAwareCallback (exampleCtx 2)],
        sent := [(1, exampleRequest), (2, exampleRequest)]\<rparr>"
proof -
  have v: "certificateVerifier exampleDirect"
    by (simp add: certificateVerifier_def exampleDirect_def newDirectConnection_def)
  have t: "reissuedToken exampleDirect = 0" "nextHandle exampleDirect = 1"
    "inflight exampleDirect = Map.empty" "sent exampleDirect = []"
    by (simp_all add: exampleDirect_def newDirectConnection_def)
  have s1: "step (EvSendRequest (Some 7) ''POST'' exampleUrl (Bytes ''{}'') (Some 1)) exampleDirect
          = exampleDirect\<lparr>nextHandle := 2,
               inflight := [1 \<mapsto> SessionAwareCallback (exampleCtx 1)],
               sent := [(1, exampleRequest)]\<rparr>"
    using v isValid_exampleRequest
    by (simp add: sendRequest_def Let_def exampleRequest_def [symmetric]
        makeSessionAwareCallbackInternal_def executeRequest_def exampleCtx_def t)
  have v2: "certificateVerifier (exampleDirect\<lparr>nextHandle := 2,
               inflight := [1 \<mapsto> SessionAwareCallback (exampleCtx 1)],
               sent := [(1, exampleRequest)]\<rparr>)"
    using v by (simp add: certificateVerifier_def split: option.splits)
  have s2: "step (EvSendRequest (Some 7) ''POST'' exampleUrl (Bytes ''{}'') (Some 2))
              (exampleDirect\<lparr>nextHandle := 2,
               inflight := [1 \<mapsto> SessionAwareCallback (exampleCtx 1)],
               sent := [(1, exampleRequest)]\<rparr>)
          = exampleDirect\<lparr>nextHandle := 3,
               inflight := [1 \<mapsto> SessionAwareCallback (exampleCtx 1),
                            2 \<mapsto> SessionAwareCallback (exampleCtx 2)],
               sent := [(1, exampleRequest), (2, exampleRequest)]\<rparr>"
    using v2 isValid_exampleRequest
    by (simp add: sendRequest_def Let_def prepareRequest_transport exampleRequest_def [symmetric]
        makeSessionAwareCallbackInternal_def executeRequest_def exampleCtx_def t)
  show ?thesis by (simp only: exampleBusy_def run.simps s1 s2)
qed

definition sessionExpiredBody :: QByteArray where
  "sessionExpiredBody = ResultJson \<lparr>errorId = sessionExpired, errorString = ''Session expired''\<rparr>"

definition newToken :: AuthToken where
  "newToken = \<lparr>token_value = ''t1'', token_type = bearer\<rparr>"

definition replyA :: PendingReply where
  "replyA = \<lparr>p_handle = 1, p_ctx = exampleCtx 1, p_success = False,
             p_result = Raw sessionExpiredBody [], p_nested = [], p_token = None\<rparr>"

definition replyB :: PendingReply where
  "replyB = \<lparr>p_handle = 2, p_ctx = exampleCtx 2, p_success = False,
             p_result = Raw sessionExpiredBody [], p_nested = [], p_token = None\<rparr>"

lemma exampleBusy_fields:
  "alive exampleBusy" "certificateVerifier exampleBusy" "storedRequests exampleBusy = []"
  "nextHandle exampleBusy = 3" "refreshCalls exampleBusy = []" "delivered exampleBusy = []"
  "tokenCount exampleBusy = 1" "tokenHeap exampleBusy = (\<lambda>_. newReissuedToken)"
  "substitutions exampleBusy = Map.empty" "terminated exampleBusy = []"
  "sent exampleBusy = [(1, exampleRequest), (2, exampleRequest)]"
  "inflight exampleBusy =
     [1 \<mapsto> SessionAwareCallback (exampleCtx 1), 2 \<mapsto> SessionAwareCallback (exampleCtx 2)]"
  by (simp_all add: exampleBusy_eq exampleDirect_def newDirectConnection_def
      certificateVerifier_def)

lemma exampleBusy_fresh: "freshHandles exampleBusy"
  by (simp add: freshHandles_def exampleBusy_fields)

lemma sessionExpired_classified:
  "requestNewSession False (Raw sessionExpiredBody [])"
  by (simp add: requestNewSession_def sessionExpiredBody_def isSessionExpiredError_def)

lemma exampleBusy_expires: "expires exampleBusy replyA" "expires exampleBusy replyB"
  by (simp_all add: expires_def replyA_def replyB_def exampleBusy_fields
      sessionExpired_classified hasValue_def newReissuedToken_def exampleCtx_def)

lemma example_callbacks:
  "ctx_callback (p_ctx replyA) = Some 1" "ctx_callback (p_ctx replyB) = Some 2"
  "p_handle replyA = 1" "p_handle replyB = 2"
  "ctx_helper (p_ctx replyA) = 7" "ctx_reissuedToken (p_ctx replyA) = 0"
  by (simp_all add: replyA_def replyB_def exampleCtx_def)

definition doneBody :: QByteArray where
  "doneBody = OtherJson ''done''"

definition exampleRequests :: "JsonRpcRequest list" where
  "exampleRequests =
     [\<lparr>req_id = Some (NumericId 1), req_method = ''rest.v3.users.update'', req_params = None\<rparr>,
      \<lparr>req_id = Some (NumericId 2), req_method = ''rest.v3.servers.list'', req_params = None\<rparr>,
      \<lparr>req_id = Some (NumericId 3), req_method = ''rest.v3.users.delete'', req_params = None\<rparr>]"

definition batchRequest :: Request where
  "batchRequest =
     prepareRequest ''POST'' (emptyUrl\<lparr>url_path := kJsonRpcPath\<rparr>) kJsonContentType
       (SerializedRequests exampleRequests) exampleDirect"

definition batchCtx :: InteractionContext where
  "batchCtx =
     \<lparr>ctx_helper = 7, ctx_reissuedToken = 0, ctx_request = batchRequest,
      ctx_callback = Some 5, expiredIds = {}, originalResponse = [],
      requestData = exampleRequests\<rparr>"

definition exampleBatch :: ServerConnection where
  "exampleBatch = run [EvJsonRpcBatchCall 7 exampleRequests 5] exampleDirect"

definition expiredItem :: "int \<Rightarrow> JsonRpcResponse" where
  "expiredItem i =
     makeError (Some (NumericId i)) applicationError ''Session expired''
       \<lparr>errorId = sessionExpired, errorString = ''Session expired''\<rparr>"

definition okItem :: "int \<Rightarrow> JsonRpcResponse" where
  "okItem i = \<lparr>resp_id = Some (NumericId i), resp_result = Some (OtherJson ''ok''),
              resp_error = None\<rparr>"

definition freshItem :: "int \<Rightarrow> JsonRpcResponse" where
  "freshItem i = \<lparr>resp_id = Some (NumericId i), resp_result = Some (OtherJson ''new''),
                 resp_error = None\<rparr>"

definition unavailable :: Result where
  "unavailable = \<lparr>errorId = otherErrorId 503, errorString = ''Service unavailable''\<rparr>"

lemma prepareRequest_direct:
  "directConnect d = Some dc \<Longrightarrow> m \<noteq> [] \<Longrightarrow>
   isValid (prepareRequest m u ct b d) \<and> rq_messageBody (prepareRequest m u ct b d) = b"
  by (simp add: prepareRequest_def setupAuthDirect_def emplaceHeader_def isValid_def emptyUrl_def
      defaultRequest_def kSecureUrlSchemeName_def)

lemma batchRequest_facts:
  "isValid batchRequest" "rq_messageBody batchRequest = SerializedRequests exampleRequests"
  using prepareRequest_direct [of exampleDirect _ "''POST''"]
  by (simp_all add: batchRequest_def exampleDirect_def newDirectConnection_def)

lemma exampleBatch_eq:
  "exampleBatch =
     exampleDirect
       \<lparr>nextHandle := 2,
        inflight := [1 \<mapsto> SessionAwareCallback batchCtx],
        sent := [(1, batchRequest)]\<rparr>"
proof -
  have v: "certificateVerifier exampleDirect"
    by (simp add: certificateVerifier_def exampleDirect_def newDirectConnection_def)
  have t: "reissuedToken exampleDirect = 0" "nextHandle exampleDirect = 1"
    "inflight exampleDirect = Map.empty" "sent exampleDirect = []"
    by (simp_all add: exampleDirect_def newDirectConnection_def)
  have "step (EvJsonRpcBatchCall 7 exampleRequests 5) exampleDirect
          = exampleDirect\<lparr>nextHandle := 2,
               inflight := [1 \<mapsto> SessionAwareCallback batchCtx],
               sent := [(1, batchRequest)]\<rparr>"
    using v batchRequest_facts(1)
    by (simp add: jsonRpcBatchCall_def Let_def batchRequest_def [symmetric]
        makeSessionAwareCallbackInternal_def executeRequest_def batchCtx_def t)
  then show ?thesis by (simp only: exampleBatch_def run.simps)
qed

lemma exampleBatch_fields:
  "alive exampleBatch" "certificateVerifier exampleBatch" "storedRequests exampleBatch = []"
  "nextHandle exampleBatch = 2" "refreshCalls exampleBatch = []" "delivered exampleBatch = []"
  "sent exampleBatch = [(1, batchRequest)]"
  "inflight exampleBatch 1 = Some (SessionAwareCallback batchCtx)"
  "\<not> hasValue (tokenHeap exampleBatch (ctx_reissuedToken batchCtx))"
  "ctx_callback batchCtx = Some 5" "requestData batchCtx = exampleRequests"
  "ctx_request batchCtx = batchRequest"
  by (simp_all add: exampleBatch_eq exampleDirect_def newDirectConnection_def
      certificateVerifier_def hasValue_def newReissuedToken_def batchCtx_def)

lemma example_items:
  "isSessionExpiredResponse (expiredItem i)" "\<not> isSessionExpiredResponse (okItem i)"
  "resp_id (expiredItem i) = Some (NumericId i)" "resp_id (okItem i) = Some (NumericId i)"
  "resp_id (freshItem i) = Some (NumericId i)"
  by (simp_all add: isSessionExpiredResponse_def expiredItem_def okItem_def freshItem_def
      makeError_def isSessionExpiredError_def)




definition exampleParseRestResult :: "nat \<Rightarrow> SerializationFormat \<Rightarrow> QByteArray \<Rightarrow> Result" where
  "exampleParseRestResult status format body =
     (case deserializeResult body of Some r \<Rightarrow> r | None \<Rightarrow> defaultResult)"

section \<open>The claims\<close>

text \<open>
  Claim C1.  Single-flight reauthorization.  The connection is alive, has a certificate
  verifier and no stored request, and the transport has nothing in flight under a handle
  it has not issued.  \<open>trigger\<close> and \<open>others\<close> are replies to distinct session-aware
  requests in flight, each classified as session-expired while the token object its
  context captured is unset (no reauthorization has completed for it), each with a
  callback.  \<open>trigger\<close> is handled first; \<open>others\<close> arrive while its call of
  \<^verbatim>\<open>refreshToken\<close> is active.  Then
  \<^item> at the return of that call the stored requests are the retry functions of
    \<open>trigger\<close> and of the \<open>others\<close>, in order of arrival, and \<^verbatim>\<open>refreshToken\<close>
    has been called once;
  \<^item> whatever events run inside the call, handling the reply calls
    \<^verbatim>\<open>refreshToken\<close> exactly once;
  \<^item> after the replies \<open>resent\<close> to the resends (there is no resend when no token
    was obtained) \<^verbatim>\<open>refreshToken\<close> has still been called once, and the callbacks
    invoked are exactly those of the requests, once each, each with the handle of its own
    request.
\<close>

theorem C1_single_flight_reauthorization:
  assumes "alive d" "certificateVerifier d" "freshHandles d" "storedRequests d = []"
    and "distinct (map p_handle (trigger # others))"
    and "\<forall>p\<in>set (trigger # others). expires d p \<and> ctx_callback (p_ctx p) \<noteq> None"
    and "length resent = length (trigger # others)"
  shows "step (firstReply trigger others token) d
           = afterRefresh (updateContext (p_ctx trigger) (p_success trigger) (p_result trigger))
               token (insideRefresh trigger others d)
       \<and> storedRequests (insideRefresh trigger others d) = map retryOf (trigger # others)
       \<and> refreshCalls (insideRefresh trigger others d)
           = refreshCalls d @ [ctx_helper (p_ctx trigger)]
       \<and> (\<forall>es. refreshCalls
                  (step (EvReply (p_handle trigger) (p_success trigger) (p_result trigger) es
                           token) d)
                = refreshCalls d @ [ctx_helper (p_ctx trigger)])
       \<and> refreshCalls
           (run (firstReply trigger others token # repliesFrom (nextHandle d) resent) d)
           = refreshCalls d @ [ctx_helper (p_ctx trigger)]
       \<and> map calledWith
           (delivered
              (run (firstReply trigger others token # repliesFrom (nextHandle d) resent) d))
           = map calledWith (delivered d) @ map issuerOf (trigger # others)"
proof -
  let ?ps = "trigger # others"
  let ?ctx = "updateContext (p_ctx trigger) (p_success trigger) (p_result trigger)"
  have ex: "\<forall>p\<in>set ?ps. expires d p" and cbs: "\<forall>p\<in>set ?ps. ctx_callback (p_ctx p) \<noteq> None"
    using assms(6) by auto
  have et: "expires d trigger" using ex by simp
  have eo: "\<forall>q\<in>set others. expires d q" using ex by simp
  note fr = insideRefresh_frame [OF assms(1,5) eo]
  have c1: "step (firstReply trigger others token) d
              = afterRefresh ?ctx token (insideRefresh trigger others d)"
    using assms(1,4) et by (rule step_firstReply)
  have c2: "storedRequests (insideRefresh trigger others d) = map retryOf ?ps"
    using assms(4) fr(10) by simp
  have c4: "\<forall>es. refreshCalls
                  (step (EvReply (p_handle trigger) (p_success trigger) (p_result trigger) es
                           token) d)
                = refreshCalls d @ [ctx_helper (p_ctx trigger)]"
    using first_reply_refreshes_once [OF assms(1,4)] et by (simp add: expires_def)
  define j where "j = (installToken ?ctx token (insideRefresh trigger others d))
                        \<lparr>storedRequests := []\<rparr>"
  define d1 where "d1 = step (firstReply trigger others token) d"
  have d1: "d1 = foldl (\<lambda>d f. retry f token d) j (map retryOf ?ps)"
    unfolding d1_def j_def using assms(1,4,5) ex by (rule firstReply_foldl)
  have aj: "alive j" using fr(1) by (simp add: j_def installToken_frame)
  have vj: "certificateVerifier j"
    using assms(2) fr(2)
      certificateVerifier_frame
        [of j "installToken ?ctx token (insideRefresh trigger others d)"]
    by (simp add: j_def installToken_verifier)
  have nj: "nextHandle j = nextHandle d" using fr(3) by (simp add: j_def installToken_frame)
  have dj: "delivered j = delivered d" using fr(4) by (simp add: j_def installToken_frame)
  have ij: "inflight j = (inflight d) |` (- set (map p_handle ?ps))"
    using fr(11) by (simp add: j_def installToken_frame)
  have r1: "refreshCalls d1 = refreshCalls d @ [ctx_helper (p_ctx trigger)]"
    using c4 by (simp add: d1_def firstReply_def)
  have a1: "alive d1" using aj by (simp only: d1 foldl_retry_frame)
  have fin: "refreshCalls (run (repliesFrom (nextHandle d) resent) d1) = refreshCalls d1
           \<and> map calledWith (delivered (run (repliesFrom (nextHandle d) resent) d1))
               = map calledWith (delivered d) @ map issuerOf ?ps"
  proof (cases token)
    case None
    have dd: "d1 = j\<lparr>delivered := delivered j
                          @ concat (map invocationOf (map retryOf ?ps))\<rparr>"
      using foldl_retry_None [OF aj, of "map retryOf ?ps"] d1 None by simp
    have "\<forall>k. nextHandle d \<le> k \<longrightarrow> inflight d1 k = None"
      using assms(3) by (simp add: dd ij freshHandles_def restrict_map_def)
    then have "run (repliesFrom (nextHandle d) resent) d1 = d1"
      by (rule run_repliesFrom_idle)
    moreover have "delivered d1 = delivered d @ concat (map originalInvocation ?ps)"
      by (simp add: dd dj invocationOf_retryOf comp_def)
    ultimately show ?thesis
      using calledWith_originalInvocations [OF cbs] by simp
  next
    case (Some t)
    have fs: "delivered d1 = delivered j
            \<and> nextHandle d1 = nextHandle j + length (map retryOf ?ps)
            \<and> (\<forall>i<length (map retryOf ?ps).
                  inflight d1 (nextHandle j + i) = Some (fixedOf (map retryOf ?ps ! i)))
            \<and> (\<forall>k<nextHandle j. inflight d1 k = inflight j k)"
      using foldl_retry_Some [OF aj vj, of t "map retryOf ?ps"] d1 Some by simp
    have pend: "\<forall>i<length (map retryOf ?ps).
                  inflight d1 (nextHandle d + i) = Some (fixedOf (map retryOf ?ps ! i))"
      using fs nj by simp
    have len: "length resent = length (map retryOf ?ps)" using assms(7) by simp
    note rr = run_repliesFrom [OF a1 len pend]
    have "delivered d1 = delivered d" using fs dj by simp
    then show ?thesis
      using rr calledWith_resendInvocations [OF cbs assms(7)] by simp
  qed
  show ?thesis
    using c1 c2 fr(9) c4 fin r1 by (simp add: d1_def)
qed

text \<open>
  Claim C1 at two requests of a direct connection, a new token, and a reply to each
  resend.
\<close>

theorem C1_single_flight_reauthorization_witness:
  "alive exampleBusy \<and> certificateVerifier exampleBusy \<and> freshHandles exampleBusy
   \<and> storedRequests exampleBusy = []
   \<and> expires exampleBusy replyA \<and> expires exampleBusy replyB
   \<and> storedRequests (insideRefresh replyA [replyB] exampleBusy) = [retryOf replyA, retryOf replyB]
   \<and> refreshCalls
        (run (firstReply replyA [replyB] (Some newToken)
              # repliesFrom 3 [(True, Raw (OtherJson ''done'') []), (False, Raw sessionExpiredBody [])])
           exampleBusy) = [7]
   \<and> map calledWith
        (delivered
           (run (firstReply replyA [replyB] (Some newToken)
                 # repliesFrom 3 [(True, Raw (OtherJson ''done'') []), (False, Raw sessionExpiredBody [])])
              exampleBusy)) = [(Some 1, 1), (Some 2, 2)]"
proof -
  have d: "distinct (map p_handle [replyA, replyB])"
    by (simp add: example_callbacks)
  have e: "\<forall>p\<in>set [replyA, replyB]. expires exampleBusy p \<and> ctx_callback (p_ctx p) \<noteq> None"
    by (simp add: exampleBusy_expires example_callbacks)
  have l: "length [(True, Raw (OtherJson ''done'') []), (False, Raw sessionExpiredBody [])]
             = length [replyA, replyB]"
    by simp
  note th = C1_single_flight_reauthorization
      [OF exampleBusy_fields(1,2) exampleBusy_fresh exampleBusy_fields(3) d e l, of "Some newToken"]
  note c2 = th [THEN conjunct2, THEN conjunct1]
  note c5 = th [THEN conjunct2, THEN conjunct2, THEN conjunct2, THEN conjunct2, THEN conjunct1]
  note c6 = th [THEN conjunct2, THEN conjunct2, THEN conjunct2, THEN conjunct2, THEN conjunct2]
  show ?thesis
    using c2 c5 c6
    by (simp add: exampleBusy_fields exampleBusy_fresh exampleBusy_expires example_callbacks
        issuerOf_def)
qed

text \<open>
  Claim C2.  A retry with a token for the request with original handle \<open>H\<close>, a handle
  the transport issued earlier, sends one request under the fresh handle
  \<open>nextHandle d\<close> and records the substitution of \<open>H\<close> by it.  When the resend
  completes, with any success flag and any result, the issuer's callback is invoked
  once, with handle \<open>H\<close>, which is not the handle of the resend; the substitution of
  \<open>H\<close> is removed and the resend is no longer in flight; nothing further is sent,
  stored or refreshed, so the reply to a resend is never retried.
\<close>

theorem C2_resend_correlation:
  assumes "alive d" "certificateVerifier d" "H < nextHandle d" "ctx_callback ctx = Some cb"
  shows "substitutions (retry (Retry ctx H s0 r0) (Some t) d) H = Some (nextHandle d)
       \<and> inflight (retry (Retry ctx H s0 r0) (Some t) d) (nextHandle d)
           = Some (FixedCallback ctx H)
       \<and> sent (retry (Retry ctx H s0 r0) (Some t) d)
           = sent d @ [(nextHandle d, fixedRequest ctx r0 t)]
       \<and> (\<exists>x. delivered (step (EvReply (nextHandle d) s r ns tk)
                           (retry (Retry ctx H s0 r0) (Some t) d))
                 = delivered d @ [x]
               \<and> d_callback x = cb \<and> d_handle x = H \<and> d_handle x \<noteq> nextHandle d)
       \<and> substitutions (step (EvReply (nextHandle d) s r ns tk)
                          (retry (Retry ctx H s0 r0) (Some t) d)) H = None
       \<and> inflight (step (EvReply (nextHandle d) s r ns tk)
                     (retry (Retry ctx H s0 r0) (Some t) d)) (nextHandle d) = None
       \<and> sent (step (EvReply (nextHandle d) s r ns tk)
                 (retry (Retry ctx H s0 r0) (Some t) d))
           = sent d @ [(nextHandle d, fixedRequest ctx r0 t)]
       \<and> storedRequests (step (EvReply (nextHandle d) s r ns tk)
                           (retry (Retry ctx H s0 r0) (Some t) d)) = storedRequests d
       \<and> refreshCalls (step (EvReply (nextHandle d) s r ns tk)
                         (retry (Retry ctx H s0 r0) (Some t) d)) = refreshCalls d"
proof -
  note r1 = retry_Some [OF assms(1,2), of ctx H s0 r0 t]
  let ?d1 = "retry (Retry ctx H s0 r0) (Some t) d"
  have a1: "alive ?d1" using assms(1) by (simp add: r1)
  have i1: "inflight ?d1 (nextHandle d) = Some (FixedCallback ctx H)" by (simp add: r1)
  note s2 = step_fixed [OF a1 i1, of s r ns tk]
  obtain x where x: "resendInvocation ctx H s r = [x]" "d_callback x = cb" "d_handle x = H"
    using resendInvocation_single [OF assms(4), of H s r] by blast
  have dd: "delivered ?d1 = delivered d" by (simp add: r1)
  have sd: "sent ?d1 = sent d @ [(nextHandle d, fixedRequest ctx r0 t)]" by (simp add: r1)
  have qd: "storedRequests ?d1 = storedRequests d" by simp
  have rd: "refreshCalls ?d1 = refreshCalls d" by (simp add: retry_frame)
  have "delivered (step (EvReply (nextHandle d) s r ns tk) ?d1)
          = delivered ?d1 @ resendInvocation ctx H s r"
    by (simp add: s2)
  then have "delivered (step (EvReply (nextHandle d) s r ns tk) ?d1) = delivered d @ [x]"
    by (simp add: dd x)
  then have "\<exists>x. delivered (step (EvReply (nextHandle d) s r ns tk) ?d1) = delivered d @ [x]
               \<and> d_callback x = cb \<and> d_handle x = H \<and> d_handle x \<noteq> nextHandle d"
    using x assms(3) by auto
  moreover have "substitutions ?d1 H = Some (nextHandle d)" by (simp add: r1)
  moreover have "substitutions (step (EvReply (nextHandle d) s r ns tk) ?d1) H = None"
    by (simp add: s2)
  moreover have "inflight (step (EvReply (nextHandle d) s r ns tk) ?d1) (nextHandle d) = None"
    by (simp add: s2)
  moreover have "sent (step (EvReply (nextHandle d) s r ns tk) ?d1) = sent ?d1"
    by (simp add: s2)
  moreover have "storedRequests (step (EvReply (nextHandle d) s r ns tk) ?d1)
                   = storedRequests ?d1"
    by (simp add: s2)
  moreover have "refreshCalls (step (EvReply (nextHandle d) s r ns tk) ?d1) = refreshCalls ?d1"
    by (simp add: s2)
  ultimately show ?thesis using i1 sd qd rd by simp
qed

text \<open>
  Claim C2 at the first request of the direct connection: the resend gets handle 3 and
  its reply is passed on under handle 1.
\<close>

theorem C2_resend_correlation_witness:
  "alive exampleBusy \<and> certificateVerifier exampleBusy \<and> 1 < nextHandle exampleBusy
   \<and> ctx_callback (exampleCtx 1) = Some 1
   \<and> substitutions
        (retry (Retry (exampleCtx 1) 1 False (Raw sessionExpiredBody [])) (Some newToken)
           exampleBusy) 1 = Some 3
   \<and> substitutions
        (step (EvReply 3 True (Raw doneBody []) [] None)
           (retry (Retry (exampleCtx 1) 1 False (Raw sessionExpiredBody [])) (Some newToken)
              exampleBusy)) 1 = None
   \<and> (\<exists>x. delivered
              (step (EvReply 3 True (Raw doneBody []) [] None)
                 (retry (Retry (exampleCtx 1) 1 False (Raw sessionExpiredBody []))
                    (Some newToken) exampleBusy)) = [x]
            \<and> d_callback x = 1 \<and> d_handle x = 1)"
proof -
  have h: "1 < nextHandle exampleBusy" by (simp add: exampleBusy_fields)
  have c: "ctx_callback (exampleCtx 1) = Some 1" by (simp add: exampleCtx_def)
  note th = C2_resend_correlation [OF exampleBusy_fields(1,2) h c,
      of False "Raw sessionExpiredBody []" newToken True "Raw doneBody []" "[]" None]
  note c1 = th [THEN conjunct1]
  note c4 = th [THEN conjunct2, THEN conjunct2, THEN conjunct2, THEN conjunct1]
  note c5 = th [THEN conjunct2, THEN conjunct2, THEN conjunct2, THEN conjunct2, THEN conjunct1]
  show ?thesis
    using c1 c4 c5 c by (auto simp: exampleBusy_fields)
qed

text \<open>
  Claim C3.  Decline fallback.  When \<^verbatim>\<open>refreshToken\<close> returns no token, every
  waiting request, the one that called it included, passes its original response on: the
  invocations added are those of the requests' callbacks with the original success flag,
  handle and result, in order of arrival.  No request is sent, the next handle of the
  transport and the substitutions are unchanged, and in flight only the original calls
  are gone.
\<close>

theorem C3_decline_fallback:
  assumes "alive d" "storedRequests d = []"
    and "distinct (map p_handle (trigger # others))"
    and "\<forall>p\<in>set (trigger # others). expires d p"
  shows "delivered (step (firstReply trigger others None) d)
           = delivered d @ concat (map originalInvocation (trigger # others))
       \<and> sent (step (firstReply trigger others None) d) = sent d
       \<and> nextHandle (step (firstReply trigger others None) d) = nextHandle d
       \<and> substitutions (step (firstReply trigger others None) d) = substitutions d
       \<and> inflight (step (firstReply trigger others None) d)
           = (inflight d) |` (- set (map p_handle (trigger # others)))
       \<and> storedRequests (step (firstReply trigger others None) d) = []
       \<and> (\<forall>p cb. ctx_callback (p_ctx p) = Some cb \<longrightarrow>
            originalInvocation p = [Delivery cb (p_success p) (p_handle p) (p_result p)])"
  using firstReply_declined [OF assms]
  by (simp add: installToken_def Let_def originalInvocation_def invocation_def)

text \<open>
  Claim C3 at two requests of a direct connection.
\<close>

theorem C3_decline_fallback_witness:
  "alive exampleBusy \<and> storedRequests exampleBusy = []
   \<and> expires exampleBusy replyA \<and> expires exampleBusy replyB
   \<and> delivered (step (firstReply replyA [replyB] None) exampleBusy)
       = [Delivery 1 False 1 (Raw sessionExpiredBody []),
          Delivery 2 False 2 (Raw sessionExpiredBody [])]
   \<and> sent (step (firstReply replyA [replyB] None) exampleBusy) = sent exampleBusy
   \<and> substitutions (step (firstReply replyA [replyB] None) exampleBusy) = Map.empty"
proof -
  have d: "distinct (map p_handle [replyA, replyB])"
    by (simp add: example_callbacks)
  have e: "\<forall>p\<in>set [replyA, replyB]. expires exampleBusy p"
    by (simp add: exampleBusy_expires)
  note th = C3_decline_fallback [OF exampleBusy_fields(1,3) d e]
  note c1 = th [THEN conjunct1]
  note c2 = th [THEN conjunct2, THEN conjunct1]
  note c4 = th [THEN conjunct2, THEN conjunct2, THEN conjunct2, THEN conjunct1]
  have o: "originalInvocation replyA = [Delivery 1 False 1 (Raw sessionExpiredBody [])]"
    "originalInvocation replyB = [Delivery 2 False 2 (Raw sessionExpiredBody [])]"
    by (simp_all add: originalInvocation_def invocation_def replyA_def replyB_def exampleCtx_def)
  show ?thesis
    using c1 c2 c4
    by (simp add: exampleBusy_fields exampleBusy_expires o)
qed

text \<open>
  Claim C4.  In every state \<open>cancelRequest\<close> terminates, on the transport, the handle
  the substitutions give for the request, or the handle of the request itself when they
  give none.  After a retry with a token has sent the resend of \<open>H\<close>, that is the
  handle of the resend, whose completion is then dropped; once the resend has completed,
  it is \<open>H\<close> again.
\<close>

theorem C4_cancel_routing:
  assumes "alive d" "certificateVerifier d"
  shows "(\<forall>c requestId.
            cancelRequest requestId c =
              terminate (case substitutions c requestId of
                           Some actualId \<Rightarrow> actualId
                         | None \<Rightarrow> requestId) c
          \<and> terminated (cancelRequest requestId c) =
              terminated c
                @ [case substitutions c requestId of
                     Some actualId \<Rightarrow> actualId
                   | None \<Rightarrow> requestId])
       \<and> cancelRequest H (retry (Retry ctx H s0 r0) (Some t) d)
           = terminate (nextHandle d) (retry (Retry ctx H s0 r0) (Some t) d)
       \<and> inflight (retry (Retry ctx H s0 r0) (Some t) d) (nextHandle d)
           = Some (FixedCallback ctx H)
       \<and> inflight (cancelRequest H (retry (Retry ctx H s0 r0) (Some t) d)) (nextHandle d)
           = None
       \<and> cancelRequest H
           (step (EvReply (nextHandle d) s r ns tk) (retry (Retry ctx H s0 r0) (Some t) d))
           = terminate H
               (step (EvReply (nextHandle d) s r ns tk)
                  (retry (Retry ctx H s0 r0) (Some t) d))"
proof -
  note r1 = retry_Some [OF assms(1,2), of ctx H s0 r0 t]
  let ?d1 = "retry (Retry ctx H s0 r0) (Some t) d"
  have a1: "alive ?d1" using assms(1) by (simp add: r1)
  have i1: "inflight ?d1 (nextHandle d) = Some (FixedCallback ctx H)" by (simp add: r1)
  note s2 = step_fixed [OF a1 i1, of s r ns tk]
  have g: "\<forall>c requestId.
            cancelRequest requestId c =
              terminate (case substitutions c requestId of
                           Some actualId \<Rightarrow> actualId
                         | None \<Rightarrow> requestId) c
          \<and> terminated (cancelRequest requestId c) =
              terminated c
                @ [case substitutions c requestId of
                     Some actualId \<Rightarrow> actualId
                   | None \<Rightarrow> requestId]"
    by (simp add: cancelRequest_def terminate_def split: option.splits)
  have "cancelRequest H ?d1 = terminate (nextHandle d) ?d1"
    by (simp add: cancelRequest_def r1)
  moreover have "inflight (cancelRequest H ?d1) (nextHandle d) = None"
    by (simp add: cancelRequest_def r1 terminate_def)
  moreover have "cancelRequest H (step (EvReply (nextHandle d) s r ns tk) ?d1)
                   = terminate H (step (EvReply (nextHandle d) s r ns tk) ?d1)"
    by (simp add: cancelRequest_def s2)
  ultimately show ?thesis using g i1 by blast
qed

text \<open>
  Claim C4 at the first request of the direct connection, before its resend, while the
  resend is in flight, and after.
\<close>

theorem C4_cancel_routing_witness:
  "alive exampleBusy \<and> certificateVerifier exampleBusy
   \<and> terminated (cancelRequest 1 exampleBusy) = [1]
   \<and> cancelRequest 1
        (retry (Retry (exampleCtx 1) 1 False (Raw sessionExpiredBody [])) (Some newToken)
           exampleBusy)
      = terminate 3
          (retry (Retry (exampleCtx 1) 1 False (Raw sessionExpiredBody [])) (Some newToken)
             exampleBusy)
   \<and> cancelRequest 1
        (step (EvReply 3 True (Raw doneBody []) [] None)
           (retry (Retry (exampleCtx 1) 1 False (Raw sessionExpiredBody [])) (Some newToken)
              exampleBusy))
      = terminate 1
          (step (EvReply 3 True (Raw doneBody []) [] None)
             (retry (Retry (exampleCtx 1) 1 False (Raw sessionExpiredBody [])) (Some newToken)
                exampleBusy))"
proof -
  note th = C4_cancel_routing [OF exampleBusy_fields(1,2),
      of 1 "exampleCtx 1" False "Raw sessionExpiredBody []" newToken True "Raw doneBody []" "[]" None]
  note g = th [THEN conjunct1, rule_format, of 1 exampleBusy, THEN conjunct2]
  note c2 = th [THEN conjunct2, THEN conjunct1]
  note c5 = th [THEN conjunct2, THEN conjunct2, THEN conjunct2, THEN conjunct2]
  show ?thesis
    using g c2 c5 by (simp add: exampleBusy_fields)
qed

text \<open>
  Claim C5.  A batch reply is delivered with success and holds session-expired items that
  carry an id; they may be a proper subset of the items or all of them.  Ids are compared
  by type and value, and a null id is never eligible for matching.  When
  \<^verbatim>\<open>refreshToken\<close> returns a token, exactly one request is sent, under a fresh handle
  and with the new token, whose body holds exactly the original requests whose id is the
  id of a session-expired item.  When the reply to it is a response array, nothing else
  is sent and the callback of the batch is invoked once, with success and the original
  handle, on the merged array: each original item carrying an id that is the id of an
  item of the resend's array is replaced by the first such item, and every other item is
  unchanged.  Where the resend's array or the original array holds no null id, this is
  the replacement on plain equality of ids.
\<close>

theorem C5_batch_partial_resend:
  assumes "alive d" "certificateVerifier d" "storedRequests d = []"
    and "inflight d h = Some (SessionAwareCallback ctx)"
    and "\<not> hasValue (tokenHeap d (ctx_reissuedToken ctx))"
    and "ctx_callback ctx = Some cb"
    and "\<exists>a\<in>set orig. isSessionExpiredResponse a \<and> resp_id a \<noteq> None"
  shows "sent (step (EvReply h True (JsonRpc (Inr (Array orig))) [] (Some t)) d)
         = sent d @
           [(nextHandle d,
             (ctx_request ctx)
               \<lparr>rq_credentials :=
                  map_option (\<lambda>c. c\<lparr>authToken := t\<rparr>) (rq_credentials (ctx_request ctx)),
                rq_messageBody :=
                  SerializedRequests
                    (filter (\<lambda>q. req_id q \<noteq> None
                                 \<and> (\<exists>a\<in>set orig. isSessionExpiredResponse a
                                                    \<and> resp_id a = req_id q))
                       (requestData ctx))\<rparr>)]
       \<and> delivered (step (EvReply h True (JsonRpc (Inr (Array orig))) [] (Some t)) d)
         = delivered d
       \<and> sent (run [EvReply h True (JsonRpc (Inr (Array orig))) [] (Some t),
                    EvReply (nextHandle d) s (JsonRpc (Inr (Array resent))) ns tk] d)
         = sent (step (EvReply h True (JsonRpc (Inr (Array orig))) [] (Some t)) d)
       \<and> delivered
           (run [EvReply h True (JsonRpc (Inr (Array orig))) [] (Some t),
                 EvReply (nextHandle d) s (JsonRpc (Inr (Array resent))) ns tk] d)
         = delivered d @
           [Delivery cb True h
              (JsonRpc (Inr (Array
                 (map (\<lambda>a. case (if resp_id a = None then None
                                  else find (\<lambda>x. resp_id x = resp_id a) resent) of
                             Some x \<Rightarrow> x
                           | None \<Rightarrow> a) orig))))]
       \<and> ((\<forall>x\<in>set resent. resp_id x \<noteq> None) \<or> (\<forall>a\<in>set orig. resp_id a \<noteq> None)
          \<longrightarrow> delivered
                (run [EvReply h True (JsonRpc (Inr (Array orig))) [] (Some t),
                      EvReply (nextHandle d) s (JsonRpc (Inr (Array resent))) ns tk] d)
              = delivered d @
                [Delivery cb True h
                   (JsonRpc (Inr (Array
                      (map (\<lambda>a. case find (\<lambda>x. resp_id x = resp_id a) resent of
                                  Some x \<Rightarrow> x
                                | None \<Rightarrow> a) orig))))])"
proof -
  let ?p = "\<lparr>p_handle = h, p_ctx = ctx, p_success = True,
             p_result = JsonRpc (Inr (Array orig)), p_nested = [], p_token = Some t\<rparr>"
  let ?ctx = "updateContext ctx True (JsonRpc (Inr (Array orig)))"
  have e: "expires d ?p"
    using assms by (simp add: expires_def requestNewSession_batch)
  have f: "firstReply ?p [] (Some t) = EvReply h True (JsonRpc (Inr (Array orig))) [] (Some t)"
    by (simp add: firstReply_def)
  note s1 = firstReply_alone [OF assms(1,2,3) e, of t, unfolded f]
  let ?d1 = "step (EvReply h True (JsonRpc (Inr (Array orig))) [] (Some t)) d"
  have a1: "alive ?d1" using assms(1) by (simp add: s1 installToken_frame)
  have i1: "inflight ?d1 (nextHandle d) = Some (FixedCallback ?ctx h)"
    by (simp add: s1)
  have d1: "delivered ?d1 = delivered d"
    by (simp add: s1 installToken_frame)
  have q1: "sent ?d1 = sent d @ [(nextHandle d, fixedRequest ?ctx (JsonRpc (Inr (Array orig))) t)]"
    by (simp add: s1 installToken_frame)
  have fr: "fixedRequest ?ctx (JsonRpc (Inr (Array orig))) t =
             (ctx_request ctx)
               \<lparr>rq_credentials :=
                  map_option (\<lambda>c. c\<lparr>authToken := t\<rparr>) (rq_credentials (ctx_request ctx)),
                rq_messageBody :=
                  SerializedRequests
                    (filter (\<lambda>q. req_id q \<noteq> None
                                 \<and> (\<exists>a\<in>set orig. isSessionExpiredResponse a
                                                    \<and> resp_id a = req_id q))
                       (requestData ctx))\<rparr>"
    by (simp add: fixedRequest_def Let_def updateContext_batch)
  note s2 = step_fixed [OF a1 i1, of s "JsonRpc (Inr (Array resent))" ns tk]
  have d2: "delivered (step (EvReply (nextHandle d) s (JsonRpc (Inr (Array resent))) ns tk) ?d1)
          = delivered d @ resendInvocation ?ctx h s (JsonRpc (Inr (Array resent)))"
    by (simp add: s2 d1)
  have q2: "sent (step (EvReply (nextHandle d) s (JsonRpc (Inr (Array resent))) ns tk) ?d1)
          = sent ?d1"
    by (simp add: s2)
  have ri: "resendInvocation ?ctx h s (JsonRpc (Inr (Array resent))) =
           [Delivery cb True h
              (JsonRpc (Inr (Array
                 (map (\<lambda>a. case (if resp_id a = None then None
                                  else find (\<lambda>x. resp_id x = resp_id a) resent) of
                             Some x \<Rightarrow> x
                           | None \<Rightarrow> a) orig))))]"
    using assms(6)
    by (simp add: resendInvocation_def mergeJsonRpcResults_Array invocation_def
        updateContext_batch)
  have pl: "(\<forall>x\<in>set resent. resp_id x \<noteq> None) \<or> (\<forall>a\<in>set orig. resp_id a \<noteq> None)
             \<longrightarrow> resendInvocation ?ctx h s (JsonRpc (Inr (Array resent))) =
               [Delivery cb True h
                  (JsonRpc (Inr (Array
                     (map (\<lambda>a. case find (\<lambda>x. resp_id x = resp_id a) resent of
                                 Some x \<Rightarrow> x
                               | None \<Rightarrow> a) orig))))]"
    using merge_plain_ids [of resent orig] by (simp add: ri)
  show ?thesis
    using q1 fr d1 d2 q2 ri pl by simp
qed

text \<open>
  Claim C5 at a batch of three requests in which the items with ids 1 and 3 are
  session-expired and item 2 is not: the requests 1 and 3 are resent, items 1 and 3 are
  replaced and item 2 is kept.
\<close>

theorem C5_batch_partial_resend_witness:
  "alive exampleBatch \<and> certificateVerifier exampleBatch \<and> storedRequests exampleBatch = []
   \<and> inflight exampleBatch 1 = Some (SessionAwareCallback batchCtx)
   \<and> isSessionExpiredResponse (expiredItem 1) \<and> \<not> isSessionExpiredResponse (okItem 2)
   \<and> resp_id (freshItem 1) \<noteq> None \<and> resp_id (freshItem 3) \<noteq> None
   \<and> map (\<lambda>x. (fst x, rq_messageBody (snd x)))
        (sent (step (EvReply 1 True
                       (JsonRpc (Inr (Array [expiredItem 1, okItem 2, expiredItem 3]))) []
                       (Some newToken)) exampleBatch))
      = [(1, SerializedRequests exampleRequests),
         (2, SerializedRequests
               [\<lparr>req_id = Some (NumericId 1), req_method = ''rest.v3.users.update'',
                 req_params = None\<rparr>,
                \<lparr>req_id = Some (NumericId 3), req_method = ''rest.v3.users.delete'',
                 req_params = None\<rparr>])]
   \<and> delivered
        (run [EvReply 1 True (JsonRpc (Inr (Array [expiredItem 1, okItem 2, expiredItem 3]))) []
                (Some newToken),
              EvReply 2 True (JsonRpc (Inr (Array [freshItem 1, freshItem 3]))) [] None]
           exampleBatch)
      = [Delivery 5 True 1 (JsonRpc (Inr (Array [freshItem 1, okItem 2, freshItem 3])))]"
proof -
  have e: "\<exists>a\<in>set [expiredItem 1, okItem 2, expiredItem 3].
             isSessionExpiredResponse a \<and> resp_id a \<noteq> None"
    by (simp add: example_items)
  have p: "(\<forall>x\<in>set [freshItem 1, freshItem 3]. resp_id x \<noteq> None)
           \<or> (\<forall>a\<in>set [expiredItem 1, okItem 2, expiredItem 3]. resp_id a \<noteq> None)"
    by (simp add: example_items)
  note th = C5_batch_partial_resend
      [OF exampleBatch_fields(1,2,3,8,9,10) e,
       of newToken True "[freshItem 1, freshItem 3]" "[]" None]
  note c1 = th [THEN conjunct1]
  note c5 = th [THEN conjunct2, THEN conjunct2, THEN conjunct2, THEN conjunct2, rule_format, OF p]
  show ?thesis
    using c1 c5 exampleBatch_fields example_items [of 1] example_items [of 2] batchRequest_facts
    by (simp add: exampleRequests_def example_items)
qed

text \<open>
  Claim C6.  When the reply to the resent batch is an error instead of a response array,
  the callback of the batch is invoked once, with success \<open>True\<close> and the original
  handle, on the original array in which every session-expired item is replaced by an
  application error made from the item's id and the error's text and data, and every
  other item is unchanged; \<open>internalCallback\<close> passes this array on to the issuer with
  success and the original handle.
\<close>

theorem C6_failed_batch_resend:
  assumes "alive d" "certificateVerifier d" "storedRequests d = []"
    and "inflight d h = Some (SessionAwareCallback ctx)"
    and "\<not> hasValue (tokenHeap d (ctx_reissuedToken ctx))"
    and "ctx_callback ctx = Some cb"
    and "\<exists>a\<in>set orig. isSessionExpiredResponse a \<and> resp_id a \<noteq> None"
  shows "delivered
           (run [EvReply h True (JsonRpc (Inr (Array orig))) [] (Some t),
                 EvReply (nextHandle d) s (JsonRpc (Inl e)) ns tk] d)
         = delivered d @
           [Delivery cb True h
              (JsonRpc (Inr (Array
                 (map (\<lambda>a. if isSessionExpiredResponse a
                           then makeError (resp_id a) applicationError (errorString e) e
                           else a) orig))))]
       \<and> internalCallback True h
           (Inr (Array
              (map (\<lambda>a. if isSessionExpiredResponse a
                        then makeError (resp_id a) applicationError (errorString e) e
                        else a) orig)))
         = Some (True, h,
                 map (\<lambda>a. if isSessionExpiredResponse a
                          then makeError (resp_id a) applicationError (errorString e) e
                          else a) orig)"
proof -
  let ?p = "\<lparr>p_handle = h, p_ctx = ctx, p_success = True,
             p_result = JsonRpc (Inr (Array orig)), p_nested = [], p_token = Some t\<rparr>"
  let ?ctx = "updateContext ctx True (JsonRpc (Inr (Array orig)))"
  have e: "expires d ?p"
    using assms by (simp add: expires_def requestNewSession_batch)
  have f: "firstReply ?p [] (Some t) = EvReply h True (JsonRpc (Inr (Array orig))) [] (Some t)"
    by (simp add: firstReply_def)
  note s1 = firstReply_alone [OF assms(1,2,3) e, of t, unfolded f]
  let ?d1 = "step (EvReply h True (JsonRpc (Inr (Array orig))) [] (Some t)) d"
  have a1: "alive ?d1" using assms(1) by (simp add: s1 installToken_frame)
  have i1: "inflight ?d1 (nextHandle d) = Some (FixedCallback ?ctx h)"
    by (simp add: s1)
  have d1: "delivered ?d1 = delivered d"
    by (simp add: s1 installToken_frame)
  have "delivered (step (EvReply (nextHandle d) s (JsonRpc (Inl e)) ns tk) ?d1)
          = delivered ?d1 @ resendInvocation ?ctx h s (JsonRpc (Inl e))"
    by (simp add: step_fixed [OF a1 i1])
  then show ?thesis
    using assms(6)
    by (simp add: d1 resendInvocation_def mergeJsonRpcResults_error invocation_def
        updateContext_batch internalCallback_def)
qed

text \<open>
  Claim C6 at the batch of three requests, the resend answered by an error.
\<close>

theorem C6_failed_batch_resend_witness:
  "alive exampleBatch \<and> certificateVerifier exampleBatch \<and> storedRequests exampleBatch = []
   \<and> inflight exampleBatch 1 = Some (SessionAwareCallback batchCtx)
   \<and> isSessionExpiredResponse (expiredItem 1)
   \<and> delivered
        (run [EvReply 1 True (JsonRpc (Inr (Array [expiredItem 1, okItem 2, expiredItem 3]))) []
                (Some newToken),
              EvReply 2 False (JsonRpc (Inl unavailable)) [] None]
           exampleBatch)
      = [Delivery 5 True 1
           (JsonRpc (Inr (Array
              [makeError (Some (NumericId 1)) applicationError ''Service unavailable'' unavailable,
               okItem 2,
               makeError (Some (NumericId 3)) applicationError ''Service unavailable''
                 unavailable])))]
   \<and> internalCallback True 1
        (Inr (Array
           [makeError (Some (NumericId 1)) applicationError ''Service unavailable'' unavailable,
            okItem 2,
            makeError (Some (NumericId 3)) applicationError ''Service unavailable'' unavailable]))
      = Some (True, 1,
           [makeError (Some (NumericId 1)) applicationError ''Service unavailable'' unavailable,
            okItem 2,
            makeError (Some (NumericId 3)) applicationError ''Service unavailable'' unavailable])"
proof -
  have e: "\<exists>a\<in>set [expiredItem 1, okItem 2, expiredItem 3].
             isSessionExpiredResponse a \<and> resp_id a \<noteq> None"
    by (simp add: example_items)
  note th = C6_failed_batch_resend
      [OF exampleBatch_fields(1,2,3,8,9,10) e, of newToken False unavailable "[]" None]
  show ?thesis
    using th exampleBatch_fields example_items [of 1]
    by (simp add: example_items unavailable_def)
qed

text \<open>
  Claim C7, where the code departs from it.  A session-aware request with a typed result
  \<^verbatim>\<open>ErrorOrData<T>\<close> gets a reply with HTTP status 401 whose body is the server's
  \<^verbatim>\<open>Result\<close> with error identifier \<open>sessionExpired\<close>.  The reply handler reports
  failure with a default-constructed \<^verbatim>\<open>Result\<close>, whose identifier is \<open>ok\<close>: the
  reply is not classified as session-expired, \<^verbatim>\<open>refreshToken\<close> is not called, and
  the issuer's callback gets the failure.
\<close>

theorem C7_typed_reply_loses_error_id:
  "errorId (exampleParseRestResult 401 json sessionExpiredBody) = sessionExpired
   \<and> replyHandler True (\<lambda>_. Some []) exampleParseRestResult
        \<lparr>statusCode = 401, systemError = 0, replyFormat = json, replyBody = sessionExpiredBody\<rparr>
      = (False, Typed (Inl defaultResult))
   \<and> getError (Typed (Inl defaultResult)) = ok
   \<and> \<not> requestNewSession False (Typed (Inl defaultResult))
   \<and> refreshCalls (step (EvReply 1 False (Typed (Inl defaultResult)) [] (Some newToken))
                      exampleBusy) = []
   \<and> delivered (step (EvReply 1 False (Typed (Inl defaultResult)) [] (Some newToken))
                   exampleBusy)
      = [Delivery 1 False 1 (Typed (Inl defaultResult))]"
proof -
  have n: "\<not> requestNewSession False (Typed (Inl defaultResult))"
    by (simp add: requestNewSession_def defaultResult_def)
  have "step (EvReply 1 False (Typed (Inl defaultResult)) [] (Some newToken)) exampleBusy
          = deliver (Some 1) False 1 (Typed (Inl defaultResult))
              (exampleBusy\<lparr>inflight := (inflight exampleBusy)(1 := None)\<rparr>)"
    using n by (simp add: step.simps(1) exampleBusy_fields exampleCtx_def)
  then show ?thesis
    using n
    by (simp add: deliver_def invocation_def exampleBusy_fields exampleParseRestResult_def
        sessionExpiredBody_def replyHandler_def parseMessageBody_ErrorOrData_def
        parseMessageBody_Result_def defaultResult_def)
qed

text \<open>
  Claim C7: the error identifier the callback reads from the handled reply, and the
  calls of \<^verbatim>\<open>refreshToken\<close>.
\<close>

theorem C7_typed_reply_loses_error_id_witness:
  "getError
     (snd (replyHandler True (\<lambda>_. Some []) exampleParseRestResult
             \<lparr>statusCode = 401, systemError = 0, replyFormat = json,
              replyBody = sessionExpiredBody\<rparr>)) = ok
   \<and> refreshCalls (step (EvReply 1 False (Typed (Inl defaultResult)) [] (Some newToken))
                      exampleBusy) = []"
  using C7_typed_reply_loses_error_id by simp




subsection \<open>Request preparation and credentials\<close>

text \<open>
  Claim C9.  When neither a direct connection nor the system context provides what a
  request needs (no system context, no server resource, or no message bus connection),
  \<open>prepareRequest\<close> returns the default-constructed request, which is not valid; the
  send operations then return the null handle \<open>0\<close> and leave the connection as it was:
  nothing is handed to the transport, no context is stored, nothing can be retried later.
\<close>

theorem C9_unpreparable_request:
  assumes "directConnect d = None"
    and "case systemContext d of
           None \<Rightarrow> True
         | Some sc \<Rightarrow> sc_server sc = None \<or> sc_messageBusConnection sc = None"
  shows "prepareRequest method url contentType body d = defaultRequest
       \<and> \<not> isValid (prepareRequest method url contentType body d)
       \<and> jsonRpcBatchCall tokenHelper requests callback d = (0, d)
       \<and> sendRequest helper method url body cb d = (0, d)
       \<and> step (EvJsonRpcBatchCall tokenHelper requests callback) d = d
       \<and> step (EvSendRequest helper method url body cb) d = d"
  using prepareRequest_unavailable [OF assms] isValid_defaultRequest
  by (simp add: jsonRpcBatchCall_def sendRequest_def Let_def)

theorem C9_unpreparable_request_witness:
  "directConnect exampleUnconnected = None
   \<and> sc_server exampleContext = None
   \<and> prepareRequest ''POST'' (emptyUrl\<lparr>url_path := kJsonRpcPath\<rparr>) kJsonContentType
        (SerializedRequests []) exampleUnconnected = defaultRequest
   \<and> jsonRpcBatchCall 7 [] 3 exampleUnconnected = (0, exampleUnconnected)
   \<and> sent (snd (jsonRpcBatchCall 7 [] 3 exampleUnconnected)) = []"
proof -
  have a: "directConnect exampleUnconnected = None"
    by (simp add: exampleUnconnected_def newConnection_def)
  have b: "case systemContext exampleUnconnected of
             None \<Rightarrow> True
           | Some sc \<Rightarrow> sc_server sc = None \<or> sc_messageBusConnection sc = None"
    by (simp add: exampleUnconnected_def newConnection_def exampleContext_def)
  show ?thesis
    using C9_unpreparable_request [OF a b, of "''POST''" "emptyUrl\<lparr>url_path := kJsonRpcPath\<rparr>"
        kJsonContentType "SerializedRequests []" 7 "[]" 3 None None]
    by (simp add: exampleUnconnected_def newConnection_def exampleContext_def)
qed

text \<open>
  Claim C10.  On a direct connection \<open>updateCredentials\<close> stores the supplied
  credentials exactly when their token is a bearer token; otherwise the whole state of
  the connection is unchanged.  The operation returns nothing but the state.
\<close>

theorem C10_updateCredentials:
  assumes "directConnect d = Some dc"
  shows "updateCredentials credentials d =
           (if isBearerToken (authToken credentials)
            then d\<lparr>directConnect := Some (dc\<lparr>dc_credentials := credentials\<rparr>)\<rparr>
            else d)"
  using assms by (simp add: updateCredentials_def)

theorem C10_updateCredentials_witness:
  "updateCredentials
     \<lparr>username = ''Admin'', authToken = \<lparr>token_value = ''secret'', token_type = password\<rparr>\<rparr>
     exampleDirect = exampleDirect
   \<and> map_option dc_credentials
       (directConnect
          (updateCredentials
             \<lparr>username = ''Admin'', authToken = \<lparr>token_value = ''t1'', token_type = bearer\<rparr>\<rparr>
             exampleDirect))
     = Some \<lparr>username = ''Admin'', authToken = \<lparr>token_value = ''t1'', token_type = bearer\<rparr>\<rparr>"
proof -
  have a: "directConnect exampleDirect =
             Some \<lparr>dc_certificateVerifier = True, dc_address = (''10.0.0.1'', 7001),
                   dc_credentials = exampleCredentials\<rparr>"
    by (simp add: exampleDirect_def newDirectConnection_def)
  show ?thesis
    using C10_updateCredentials [OF a,
        of "\<lparr>username = ''Admin'', authToken = \<lparr>token_value = ''secret'', token_type = password\<rparr>\<rparr>"]
      C10_updateCredentials [OF a,
        of "\<lparr>username = ''Admin'', authToken = \<lparr>token_value = ''t1'', token_type = bearer\<rparr>\<rparr>"]
    by (simp add: isBearerToken_def)
qed

end
